theory Spec2Isabelle
  imports Complex_Main
begin

section \<open>Python values\<close>

text \<open>
  The values that \<^verbatim>\<open>json.loads\<close> produces and that the service returns: \<^verbatim>\<open>None\<close>,
  booleans, integers, floats, strings, lists and dictionaries. A dictionary is an
  association list read with \<open>map_of\<close>. Strings are lists of characters with code
  points below 256. No operation of the service looks inside a float.
\<close>

datatype pyval =
    PNone
  | PBool bool
  | PInt int
  | PFloat real
  | PStr string
  | PList "pyval list"
  | PDict "(string \<times> pyval) list"

type_synonym pydict = "(string \<times> pyval) list"

text \<open>\<^verbatim>\<open>d.get(k)\<close>: the value stored under \<open>k\<close>, \<^verbatim>\<open>None\<close> when the key is missing.\<close>

definition dict_get :: "pydict \<Rightarrow> string \<Rightarrow> pyval" where
  "dict_get d k = (case map_of d k of Some v \<Rightarrow> v | None \<Rightarrow> PNone)"

text \<open>\<^verbatim>\<open>d.get(k, default)\<close>.\<close>

definition dict_get_default :: "pydict \<Rightarrow> string \<Rightarrow> pyval \<Rightarrow> pyval" where
  "dict_get_default d k dflt = (case map_of d k of Some v \<Rightarrow> v | None \<Rightarrow> dflt)"

fun isinstance_str :: "pyval \<Rightarrow> bool" where
  "isinstance_str (PStr s) = True"
| "isinstance_str v = False"

fun isinstance_list :: "pyval \<Rightarrow> bool" where
  "isinstance_list (PList xs) = True"
| "isinstance_list v = False"

text \<open>In Python \<^verbatim>\<open>bool\<close> is a subclass of \<^verbatim>\<open>int\<close>: \<^verbatim>\<open>isinstance(True, int)\<close> holds.\<close>

fun isinstance_int :: "pyval \<Rightarrow> bool" where
  "isinstance_int (PInt i) = True"
| "isinstance_int (PBool b) = True"
| "isinstance_int v = False"

text \<open>\<^verbatim>\<open>len\<close>, used by the service on a value already known to be a list.\<close>

fun py_len :: "pyval \<Rightarrow> nat" where
  "py_len (PList xs) = length xs"
| "py_len (PStr s) = length s"
| "py_len (PDict d) = length d"
| "py_len v = 0"

text \<open>The truth value of a Python value, as an \<^verbatim>\<open>if\<close> tests it.\<close>

fun py_truthy :: "pyval \<Rightarrow> bool" where
  "py_truthy PNone = False"
| "py_truthy (PBool b) = b"
| "py_truthy (PInt i) = (i \<noteq> 0)"
| "py_truthy (PFloat x) = (x \<noteq> 0)"
| "py_truthy (PStr s) = (s \<noteq> [])"
| "py_truthy (PList xs) = (xs \<noteq> [])"
| "py_truthy (PDict d) = (d \<noteq> [])"

section \<open>Strings\<close>

text \<open>
  Whitespace as \<^verbatim>\<open>str.strip()\<close> and the pattern \<^verbatim>\<open>\s\<close> see it, for code points
  below 256: tab to carriage return, the four separators 28 to 31, the space, and the
  two Latin-1 characters 133 and 160.
\<close>

definition is_space :: "char \<Rightarrow> bool" where
  "is_space c = (let n = (of_char c :: nat) in
     (9 \<le> n \<and> n \<le> 13) \<or> (28 \<le> n \<and> n \<le> 32) \<or> n = 133 \<or> n = 160)"

definition py_strip :: "string \<Rightarrow> string" where
  "py_strip s = rev (dropWhile is_space (rev (dropWhile is_space s)))"

text \<open>\<^verbatim>\<open>str.lower()\<close> on code points below 256: the ASCII and the Latin-1 capitals.\<close>

definition lower_char :: "char \<Rightarrow> char" where
  "lower_char c = (let n = (of_char c :: nat) in
     if (65 \<le> n \<and> n \<le> 90) \<or> (192 \<le> n \<and> n \<le> 222 \<and> n \<noteq> 215)
     then char_of (n + 32) else c)"

definition py_lower :: "string \<Rightarrow> string" where
  "py_lower s = map lower_char s"

text \<open>\<^verbatim>\<open>sep.join(xs)\<close>.\<close>

fun py_join :: "string \<Rightarrow> string list \<Rightarrow> string" where
  "py_join sep [] = []"
| "py_join sep [x] = x"
| "py_join sep (x # y # ys) = x @ sep @ py_join sep (y # ys)"

text \<open>Decimal digits of a natural number, for \<^verbatim>\<open>str\<close> of an integer.\<close>

fun digits :: "nat \<Rightarrow> string" where
  "digits n = (if n < 10 then [''0123456789'' ! n]
               else digits (n div 10) @ [''0123456789'' ! (n mod 10)])"

text \<open>
  \<^verbatim>\<open>str(v)\<close>. The text of a float, a list or a dictionary is their \<^verbatim>\<open>repr\<close>, which is
  the interpreter's and is taken as the parameter \<open>repr\<close>.
\<close>

fun py_str :: "(pyval \<Rightarrow> string) \<Rightarrow> pyval \<Rightarrow> string" where
  "py_str repr (PStr s) = s"
| "py_str repr PNone = ''None''"
| "py_str repr (PBool b) = (if b then ''True'' else ''False'')"
| "py_str repr (PInt i) = (if i < 0 then ''-'' @ digits (nat (- i)) else digits (nat i))"
| "py_str repr v = repr v"

section \<open>The two patterns\<close>

text \<open>
  \<^verbatim>\<open>re.search(r"\{[\s\S]*?\}", raw)\<close>: the leftmost position where the pattern matches,
  and there the shortest match: an opening brace up to the first closing brace after it.
\<close>

fun match_object_at :: "string \<Rightarrow> string option" where
  "match_object_at [] = None"
| "match_object_at (c # cs) =
     (if c = CHR ''{'' \<and> CHR ''}'' \<in> set cs
      then Some (c # takeWhile (\<lambda>x. x \<noteq> CHR ''}'') cs @ ''}'')
      else None)"

fun search_object :: "string \<Rightarrow> string option" where
  "search_object [] = None"
| "search_object (c # cs) =
     (case match_object_at (c # cs) of
        Some m \<Rightarrow> Some m
      | None \<Rightarrow> search_object cs)"

text \<open>
  \<^verbatim>\<open>re.search(r"\[\s*\{[\s\S]*?\}\s*\]", text)\<close>. After the opening bracket, whitespace
  and the opening brace, the lazy body stops at the first closing brace that is followed
  by whitespace and a closing bracket.
\<close>

fun match_array_close :: "string \<Rightarrow> string option" where
  "match_array_close [] = None"
| "match_array_close (c # cs) =
     (if c = CHR ''}'' \<and> (case dropWhile is_space cs of [] \<Rightarrow> False | d # ds \<Rightarrow> d = CHR '']'')
      then Some (c # takeWhile is_space cs @ '']'')
      else map_option ((#) c) (match_array_close cs))"

fun match_array_at :: "string \<Rightarrow> string option" where
  "match_array_at [] = None"
| "match_array_at (c # cs) =
     (if c = CHR ''[''
      then (case dropWhile is_space cs of
              [] \<Rightarrow> None
            | d # ds \<Rightarrow>
                if d = CHR ''{''
                then map_option (\<lambda>m. c # takeWhile is_space cs @ d # m) (match_array_close ds)
                else None)
      else None)"

fun search_array :: "string \<Rightarrow> string option" where
  "search_array [] = None"
| "search_array (c # cs) =
     (case match_array_at (c # cs) of
        Some m \<Rightarrow> Some m
      | None \<Rightarrow> search_array cs)"

section \<open>Collaborators and the call trace\<close>

text \<open>
  What the language model is asked: the parts of the prompt that vary. The question
  prompt carries the set of questions already asked and the first 3000 characters of the
  context; the flashcard prompt carries the requested count and the first 4000
  characters of the context.
\<close>

datatype prompt =
    McqPrompt "string set" string
  | FlashcardPrompt nat string

text \<open>
  Every call that leaves the two public functions is recorded, in order: the retrieval
  call with its arguments, each entry into one of the two internal generators, and each
  request sent to the language model.
\<close>

datatype event =
    Retrieve int int int
  | CallMcq
  | CallFlashcards nat
  | ChatCompletion prompt

fun is_chat :: "event \<Rightarrow> bool" where
  "is_chat (ChatCompletion p) = True"
| "is_chat e = False"

fun is_mcq_call :: "event \<Rightarrow> bool" where
  "is_mcq_call CallMcq = True"
| "is_mcq_call e = False"

fun is_flashcards_call :: "event \<Rightarrow> bool" where
  "is_flashcards_call (CallFlashcards n) = True"
| "is_flashcards_call e = False"

fun is_retrieve :: "event \<Rightarrow> bool" where
  "is_retrieve (Retrieve s u k) = True"
| "is_retrieve e = False"

definition chat_calls :: "event list \<Rightarrow> nat" where
  "chat_calls tr = length (filter is_chat tr)"

definition mcq_calls :: "event list \<Rightarrow> nat" where
  "mcq_calls tr = length (filter is_mcq_call tr)"

definition flashcards_calls :: "event list \<Rightarrow> nat" where
  "flashcards_calls tr = length (filter is_flashcards_call tr)"

definition retrieve_calls :: "event list \<Rightarrow> nat" where
  "retrieve_calls tr = length (filter is_retrieve tr)"

text \<open>
  The module-level state and the libraries the service calls.
  \<^item> \<open>GROQ_AVAILABLE\<close> and \<open>client\<close> are set once at import; \<open>client\<close> is \<open>None\<close> when no
    client object was built. The client answers the \<open>n\<close>-th request of a call with a
    text, or raises (\<open>None\<close>): network error, empty choice list, missing content.
  \<^item> \<open>RAG_AVAILABLE\<close> tells whether the retrieval service was imported;
    \<open>retrieve_context\<close> returns a value, which the service takes for a list of chunks
    without looking, or raises (\<open>None\<close>).
  \<^item> \<open>json_loads\<close> is \<^verbatim>\<open>json.loads\<close>: the parsed value, or \<open>None\<close> when it raises.
  \<^item> \<open>py_repr\<close> is \<^verbatim>\<open>repr\<close> on floats, lists and dictionaries.
\<close>

record config =
  GROQ_AVAILABLE :: bool
  client :: "(nat \<Rightarrow> prompt \<Rightarrow> string option) option"
  RAG_AVAILABLE :: bool
  retrieve_context :: "int \<Rightarrow> int \<Rightarrow> int \<Rightarrow> pyval option"
  json_loads :: "string \<Rightarrow> pyval option"
  py_repr :: "pyval \<Rightarrow> string"

datatype exn = KeyError | AttributeError | TypeError

section \<open>Configuration table\<close>

definition DIFFICULTY_QUESTION_COUNT :: "(string \<times> nat) list" where
  "DIFFICULTY_QUESTION_COUNT = [(''easy'', 5), (''medium'', 8), (''hard'', 10)]"

definition FLASHCARD_COUNT :: "(string \<times> nat) list" where
  "FLASHCARD_COUNT = DIFFICULTY_QUESTION_COUNT"

text \<open>\<^verbatim>\<open>table.get(difficulty, 8)\<close>.\<close>

definition count_get :: "(string \<times> nat) list \<Rightarrow> string \<Rightarrow> nat \<Rightarrow> nat" where
  "count_get table difficulty dflt =
     (case map_of table difficulty of Some n \<Rightarrow> n | None \<Rightarrow> dflt)"

section \<open>Question generation\<close>

text \<open>The acceptance test of \<^verbatim>\<open>_generate_mcq_from_context\<close> on the parsed object.\<close>

definition mcq_shape_ok :: "pydict \<Rightarrow> bool" where
  "mcq_shape_ok data =
     (isinstance_str (dict_get data ''question'')
      \<and> isinstance_list (dict_get data ''options'')
      \<and> py_len (dict_get data ''options'') = 4
      \<and> isinstance_int (dict_get data ''correct_index'')
      \<and> isinstance_str (dict_get data ''explanation''))"

text \<open>
  \<^verbatim>\<open>_generate_mcq_from_context(context, asked)\<close>: the accepted object, or the empty
  dictionary. Everything after the prompt is built runs inside \<^verbatim>\<open>try\<close>; each raise
  there ends in the empty dictionary. A parsed value that is no dictionary has no
  \<^verbatim>\<open>get\<close>, which raises too.
\<close>

definition generate_mcq_from_context ::
  "config \<Rightarrow> string \<Rightarrow> string set \<Rightarrow> event list \<Rightarrow> pydict \<times> event list" where
  "generate_mcq_from_context cfg context asked tr0 =
     (let tr = tr0 @ [CallMcq] in
      if \<not> GROQ_AVAILABLE cfg then ([], tr)
      else case client cfg of
        None \<Rightarrow> ([], tr)
      | Some create \<Rightarrow>
          (let prompt = McqPrompt asked (take 3000 context);
               response = create (chat_calls tr) prompt;
               tr' = tr @ [ChatCompletion prompt]
           in case response of
                None \<Rightarrow> ([], tr')
              | Some content \<Rightarrow>
                  (case search_object (py_strip content) of
                     None \<Rightarrow> ([], tr')
                   | Some m \<Rightarrow>
                       (case json_loads cfg m of
                          Some (PDict data) \<Rightarrow>
                            if mcq_shape_ok data then (data, tr') else ([], tr')
                        | _ \<Rightarrow> ([], tr')))))"

record loop_state =
  questions :: "pydict list"
  asked_questions :: "string set"
  attempts :: nat
  trace :: "event list"

text \<open>
  One pass through the body of the \<^verbatim>\<open>while\<close> loop of \<^verbatim>\<open>generate_quiz\<close>.
  \<^verbatim>\<open>mcq["question"]\<close> raises \<^verbatim>\<open>KeyError\<close> on a missing key, and \<^verbatim>\<open>.strip()\<close> raises
  \<^verbatim>\<open>AttributeError\<close> on a value that is no string.
\<close>

definition quiz_step :: "config \<Rightarrow> string \<Rightarrow> loop_state \<Rightarrow> exn + loop_state" where
  "quiz_step cfg context st =
     (let (mcq, tr) = generate_mcq_from_context cfg context (asked_questions st) (trace st);
          st1 = st\<lparr>attempts := attempts st + 1, trace := tr\<rparr>
      in if mcq = [] then Inr st1
         else case map_of mcq ''question'' of
           None \<Rightarrow> Inl KeyError
         | Some (PStr q) \<Rightarrow>
             (let q_text = py_lower (py_strip q) in
              if q_text \<in> asked_questions st then Inr st1
              else Inr (st1\<lparr>asked_questions := insert q_text (asked_questions st),
                            questions := questions st @ [mcq]\<rparr>))
         | Some v \<Rightarrow> Inl AttributeError)"

function quiz_loop ::
  "config \<Rightarrow> string \<Rightarrow> nat \<Rightarrow> nat \<Rightarrow> loop_state \<Rightarrow> exn + loop_state" where
  "quiz_loop cfg context count max_attempts st =
     (if length (questions st) < count \<and> attempts st < max_attempts
      then (case quiz_step cfg context st of
              Inl e \<Rightarrow> Inl e
            | Inr st' \<Rightarrow> quiz_loop cfg context count max_attempts st')
      else Inr st)"
  by pat_completeness auto
termination
  by (relation "measure (\<lambda>(cfg, context, count, max_attempts, st). max_attempts - attempts st)")
     (auto simp: quiz_step_def Let_def split: prod.splits if_splits option.splits pyval.splits)

text \<open>\<^verbatim>\<open>_get_chunks\<close>: what retrieval returned, or the empty list when retrieval raises.\<close>

definition get_chunks ::
  "config \<Rightarrow> int \<Rightarrow> int \<Rightarrow> int \<Rightarrow> event list \<Rightarrow> pyval \<times> event list" where
  "get_chunks cfg subject_id unit_id top_k tr =
     (case retrieve_context cfg subject_id unit_id top_k of
        Some chunks \<Rightarrow> (chunks, tr @ [Retrieve subject_id unit_id top_k])
      | None \<Rightarrow> (PList [], tr @ [Retrieve subject_id unit_id top_k]))"

text \<open>
  \<^verbatim>\<open>" ".join(c.get("text", "") for c in chunks if c.get("text"))\<close>, which stands outside
  every \<^verbatim>\<open>try\<close>, in its three stages.

  \<^verbatim>\<open>for c in chunks\<close>: a list gives its elements, a string its characters and a
  dictionary its keys; any other value is not iterable and raises \<^verbatim>\<open>TypeError\<close>.
\<close>

fun iter_chunks :: "pyval \<Rightarrow> exn + pyval list" where
  "iter_chunks (PList cs) = Inr cs"
| "iter_chunks (PStr s) = Inr (map (\<lambda>c. PStr [c]) s)"
| "iter_chunks (PDict d) = Inr (map PStr (remdups (map fst d)))"
| "iter_chunks v = Inl TypeError"

text \<open>
  The generator, which \<^verbatim>\<open>join\<close> runs to its end before it looks at any item: a chunk
  that is a dictionary yields its \<^verbatim>\<open>text\<close> when that is true as a condition and nothing
  otherwise; a chunk that is no dictionary has no \<^verbatim>\<open>get\<close> and raises
  \<^verbatim>\<open>AttributeError\<close>.
\<close>

fun chunk_texts :: "pyval list \<Rightarrow> pyval list \<Rightarrow> exn + pyval list" where
  "chunk_texts items [] = Inr items"
| "chunk_texts items (PDict c # chunks) =
     (if py_truthy (dict_get c ''text'')
      then chunk_texts (items @ [dict_get_default c ''text'' (PStr [])]) chunks
      else chunk_texts items chunks)"
| "chunk_texts items (v # chunks) = Inl AttributeError"

text \<open>\<^verbatim>\<open>join\<close> itself: an item that is no string raises \<^verbatim>\<open>TypeError\<close>.\<close>

fun str_items :: "pyval list \<Rightarrow> exn + string list" where
  "str_items [] = Inr []"
| "str_items (PStr s # items) =
     (case str_items items of Inl e \<Rightarrow> Inl e | Inr ss \<Rightarrow> Inr (s # ss))"
| "str_items (v # items) = Inl TypeError"

definition build_context :: "pyval \<Rightarrow> exn + string" where
  "build_context chunks =
     (case iter_chunks chunks of
        Inl e \<Rightarrow> Inl e
      | Inr cs \<Rightarrow>
          (case chunk_texts [] cs of
             Inl e \<Rightarrow> Inl e
           | Inr items \<Rightarrow>
               (case str_items items of
                  Inl e \<Rightarrow> Inl e
                | Inr ss \<Rightarrow> Inr (py_join '' '' ss))))"

definition empty_quiz :: "string \<Rightarrow> pydict" where
  "empty_quiz message =
     [(''success'', PBool False), (''message'', PStr message), (''questions'', PList [])]"

definition generate_quiz ::
  "config \<Rightarrow> int \<Rightarrow> int \<Rightarrow> string \<Rightarrow> exn + (pydict \<times> event list)" where
  "generate_quiz cfg subject_id unit_id difficulty =
     (if \<not> RAG_AVAILABLE cfg then Inr (empty_quiz ''Document service not available'', [])
      else
        let count = count_get DIFFICULTY_QUESTION_COUNT difficulty 8;
            (chunks, tr) = get_chunks cfg subject_id unit_id 40 []
        in case build_context chunks of
             Inl e \<Rightarrow> Inl e
           | Inr context \<Rightarrow>
               if length context < 200 then Inr (empty_quiz ''Insufficient content'', tr)
               else
                 let max_attempts = count * 4 in
                 case quiz_loop cfg context count max_attempts
                        \<lparr>questions = [], asked_questions = {}, attempts = 0, trace = tr\<rparr> of
                   Inl e \<Rightarrow> Inl e
                 | Inr st \<Rightarrow>
                     if questions st = []
                     then Inr (empty_quiz ''MCQ generation failed'', trace st)
                     else Inr ([(''success'', PBool True),
                                (''difficulty'', PStr difficulty),
                                (''questions'', PList (map PDict (questions st)))],
                               trace st))"

section \<open>Flashcard generation\<close>

definition flashcard :: "string \<Rightarrow> string \<Rightarrow> pyval" where
  "flashcard front back =
     PDict [(''question'', PStr front), (''answer'', PStr back),
            (''front'', PStr front), (''back'', PStr back)]"

text \<open>
  The \<^verbatim>\<open>for card in data\<close> loop. An element that is no dictionary has no \<^verbatim>\<open>get\<close>: the
  loop raises (\<open>None\<close>) and the cards collected so far are lost.
\<close>

fun collect_cards :: "(pyval \<Rightarrow> string) \<Rightarrow> pyval list \<Rightarrow> pyval list \<Rightarrow> pyval list option" where
  "collect_cards repr flashcards [] = Some flashcards"
| "collect_cards repr flashcards (PDict entry # data) =
     (let front = py_strip (py_str repr (dict_get_default entry ''front'' (PStr [])));
          back = py_strip (py_str repr (dict_get_default entry ''back'' (PStr [])))
      in if front \<noteq> [] \<and> back \<noteq> []
         then collect_cards repr (flashcards @ [flashcard front back]) data
         else collect_cards repr flashcards data)"
| "collect_cards repr flashcards (v # data) = None"

text \<open>
  Iterating over the parsed value. A list gives its elements. A string gives its
  characters and a dictionary its keys, all strings, so the first one raises; with none
  the loop body never runs. Any other value is not iterable and raises.
\<close>

fun cards_of :: "(pyval \<Rightarrow> string) \<Rightarrow> pyval \<Rightarrow> pyval list option" where
  "cards_of repr (PList data) = collect_cards repr [] data"
| "cards_of repr (PStr s) = (if s = [] then Some [] else None)"
| "cards_of repr (PDict d) = (if d = [] then Some [] else None)"
| "cards_of repr v = None"

text \<open>
  \<^verbatim>\<open>_generate_flashcards_from_context(context, count)\<close>: the cards, or the empty list on
  any raise inside \<^verbatim>\<open>try\<close>.
\<close>

definition generate_flashcards_from_context ::
  "config \<Rightarrow> string \<Rightarrow> nat \<Rightarrow> event list \<Rightarrow> pyval list \<times> event list" where
  "generate_flashcards_from_context cfg context count tr0 =
     (let tr = tr0 @ [CallFlashcards count] in
      if \<not> GROQ_AVAILABLE cfg then ([], tr)
      else case client cfg of
        None \<Rightarrow> ([], tr)
      | Some create \<Rightarrow>
          (let prompt = FlashcardPrompt count (take 4000 context);
               response = create (chat_calls tr) prompt;
               tr' = tr @ [ChatCompletion prompt]
           in case response of
                None \<Rightarrow> ([], tr')
              | Some content \<Rightarrow>
                  (case search_array (py_strip content) of
                     None \<Rightarrow> ([], tr')
                   | Some m \<Rightarrow>
                       (case json_loads cfg m of
                          None \<Rightarrow> ([], tr')
                        | Some data \<Rightarrow>
                            (case cards_of (py_repr cfg) data of
                               None \<Rightarrow> ([], tr')
                             | Some flashcards \<Rightarrow> (flashcards, tr'))))))"

definition generate_flashcards ::
  "config \<Rightarrow> int \<Rightarrow> int \<Rightarrow> string \<Rightarrow> exn + (pydict \<times> event list)" where
  "generate_flashcards cfg subject_id unit_id difficulty =
     (if \<not> RAG_AVAILABLE cfg
      then Inr ([(''success'', PBool False), (''flashcards'', PList [])], [])
      else
        let count = count_get FLASHCARD_COUNT difficulty 8;
            (chunks, tr) = get_chunks cfg subject_id unit_id 30 []
        in case build_context chunks of
             Inl e \<Rightarrow> Inl e
           | Inr context \<Rightarrow>
               if length context < 200
               then Inr ([(''success'', PBool False), (''flashcards'', PList [])], tr)
               else
                 let (flashcards, tr') = generate_flashcards_from_context cfg context count tr
                 in Inr ([(''success'', PBool True),
                          (''difficulty'', PStr difficulty),
                          (''flashcards'', PList flashcards)],
                         tr'))"

section \<open>Notions used in the statements\<close>

text \<open>
  The key under which \<^verbatim>\<open>generate_quiz\<close> remembers a question:
  \<^verbatim>\<open>mcq["question"].strip().lower()\<close>.
\<close>

definition question_text :: "pydict \<Rightarrow> string" where
  "question_text mcq = (case map_of mcq ''question'' of Some (PStr q) \<Rightarrow> q | _ \<Rightarrow> [])"

definition dedup_key :: "pydict \<Rightarrow> string" where
  "dedup_key mcq = py_lower (py_strip (question_text mcq))"

text \<open>
  The context text each public function assembles, or what the join raised, and the state
  the loop starts in.
\<close>

definition quiz_context :: "config \<Rightarrow> int \<Rightarrow> int \<Rightarrow> exn + string" where
  "quiz_context cfg subject_id unit_id =
     build_context (fst (get_chunks cfg subject_id unit_id 40 []))"

definition flashcards_context :: "config \<Rightarrow> int \<Rightarrow> int \<Rightarrow> exn + string" where
  "flashcards_context cfg subject_id unit_id =
     build_context (fst (get_chunks cfg subject_id unit_id 30 []))"

definition quiz_start :: "int \<Rightarrow> int \<Rightarrow> loop_state" where
  "quiz_start subject_id unit_id =
     \<lparr>questions = [], asked_questions = {}, attempts = 0,
      trace = [Retrieve subject_id unit_id 40]\<rparr>"

text \<open>
  What retrieval may do without the join raising: raise itself, or return a list of
  dictionaries in each of which the entry \<^verbatim>\<open>text\<close> is a string, or is missing, or is false
  as a condition.
\<close>

definition chunk_ok :: "pyval \<Rightarrow> bool" where
  "chunk_ok c =
     (case c of
        PDict entry \<Rightarrow>
          isinstance_str (dict_get entry ''text'') \<or> \<not> py_truthy (dict_get entry ''text'')
      | _ \<Rightarrow> False)"

definition chunks_ok :: "pyval option \<Rightarrow> bool" where
  "chunks_ok r =
     (case r of None \<Rightarrow> True | Some (PList cs) \<Rightarrow> list_all chunk_ok cs | Some v \<Rightarrow> False)"

text \<open>
  The shape of a question artifact in the words of the specification: the question is a
  string, the options are exactly four strings, the index of the correct option is an
  integer from 0 to 3, and the explanation is a string.
\<close>

definition spec_question_shape :: "pydict \<Rightarrow> bool" where
  "spec_question_shape data =
     ((case dict_get data ''question'' of PStr q \<Rightarrow> True | _ \<Rightarrow> False)
      \<and> (case dict_get data ''options'' of
            PList opts \<Rightarrow> length opts = 4 \<and> list_all isinstance_str opts
          | _ \<Rightarrow> False)
      \<and> (case dict_get data ''correct_index'' of PInt i \<Rightarrow> 0 \<le> i \<and> i \<le> 3 | _ \<Rightarrow> False)
      \<and> (case dict_get data ''explanation'' of PStr e \<Rightarrow> True | _ \<Rightarrow> False))"

text \<open>The list under \<^verbatim>\<open>questions\<close> in what \<^verbatim>\<open>generate_quiz\<close> returned.\<close>

definition result_questions :: "exn + (pydict \<times> event list) \<Rightarrow> pyval list" where
  "result_questions r =
     (case r of
        Inr (e, tr) \<Rightarrow> (case dict_get e ''questions'' of PList qs \<Rightarrow> qs | _ \<Rightarrow> [])
      | Inl x \<Rightarrow> [])"

section \<open>Sample inputs\<close>

text \<open>A study text of 200 characters, and one of 50.\<close>

definition study_text :: string where
  "study_text = replicate 200 (CHR ''a'')"

definition short_text :: string where
  "short_text = replicate 50 (CHR ''a'')"

text \<open>
  Three answers of the language model, with the text each pattern finds in them and the
  value \<^verbatim>\<open>json.loads\<close> gives for that text.
\<close>

definition reply_mcq :: string where
  "reply_mcq = ''Here it is: {\"question\": \" Define Voltage \", \"options\": [\"A\", \"B\", \"C\", \"D\"], \"correct_index\": 1, \"explanation\": \"Basics\"} ''"

definition text_mcq :: string where
  "text_mcq = ''{\"question\": \" Define Voltage \", \"options\": [\"A\", \"B\", \"C\", \"D\"], \"correct_index\": 1, \"explanation\": \"Basics\"}''"

definition value_mcq :: pydict where
  "value_mcq =
     [(''question'', PStr '' Define Voltage ''),
      (''options'', PList [PStr ''A'', PStr ''B'', PStr ''C'', PStr ''D'']),
      (''correct_index'', PInt 1),
      (''explanation'', PStr ''Basics'')]"

definition reply_odd :: string where
  "reply_odd = ''{\"question\": \"Q\", \"options\": [1, 2, 3, 4], \"correct_index\": 9, \"explanation\": \"E\"}''"

definition value_odd :: pydict where
  "value_odd =
     [(''question'', PStr ''Q''),
      (''options'', PList [PInt 1, PInt 2, PInt 3, PInt 4]),
      (''correct_index'', PInt 9),
      (''explanation'', PStr ''E'')]"

definition reply_cards :: string where
  "reply_cards = ''Cards: [ {\"front\": \" What is current? \", \"back\": \"Flow of charge\"}, {\"front\": 5, \"back\": null}, {\"front\": \"  \", \"back\": \"x\"} ] end''"

definition text_cards :: string where
  "text_cards = ''[ {\"front\": \" What is current? \", \"back\": \"Flow of charge\"}, {\"front\": 5, \"back\": null}, {\"front\": \"  \", \"back\": \"x\"} ]''"

definition value_cards :: pyval where
  "value_cards =
     PList [PDict [(''front'', PStr '' What is current? ''), (''back'', PStr ''Flow of charge'')],
            PDict [(''front'', PInt 5), (''back'', PNone)],
            PDict [(''front'', PStr ''  ''), (''back'', PStr ''x'')]]"

definition sample_loads :: "string \<Rightarrow> pyval option" where
  "sample_loads s =
     (if s = text_mcq then Some (PDict value_mcq)
      else if s = reply_odd then Some (PDict value_odd)
      else if s = text_cards then Some value_cards
      else None)"

definition sample_client :: "string \<Rightarrow> nat \<Rightarrow> prompt \<Rightarrow> string option" where
  "sample_client mcq_reply n p =
     (case p of McqPrompt asked ctx \<Rightarrow> Some mcq_reply | FlashcardPrompt k ctx \<Rightarrow> Some reply_cards)"

text \<open>
  Four configurations: everything works; the model answers with the odd question; no
  model credential; the retrieval service was not imported. A fifth retrieves too little,
  and a sixth retrieves a chunk whose \<^verbatim>\<open>text\<close> is the number 5.
\<close>

definition cfg_ok :: config where
  "cfg_ok =
     \<lparr>GROQ_AVAILABLE = True, client = Some (sample_client reply_mcq), RAG_AVAILABLE = True,
      retrieve_context = (\<lambda>s u k. Some (PList [PDict [(''text'', PStr study_text)]])),
      json_loads = sample_loads, py_repr = (\<lambda>v. [])\<rparr>"

definition cfg_odd :: config where
  "cfg_odd = cfg_ok\<lparr>client := Some (sample_client reply_odd)\<rparr>"

definition cfg_no_llm :: config where
  "cfg_no_llm = cfg_ok\<lparr>GROQ_AVAILABLE := False, client := None\<rparr>"

definition cfg_no_rag :: config where
  "cfg_no_rag = cfg_ok\<lparr>RAG_AVAILABLE := False, retrieve_context := (\<lambda>s u k. None)\<rparr>"

definition cfg_short :: config where
  "cfg_short =
     cfg_ok\<lparr>retrieve_context :=
              (\<lambda>s u k. Some (PList [PDict [(''text'', PStr short_text)],
                                     PDict [(''page'', PInt 3)]]))\<rparr>"

definition cfg_number :: config where
  "cfg_number =
     cfg_ok\<lparr>retrieve_context :=
              (\<lambda>s u k. Some (PList [PDict [(''text'', PStr study_text)],
                                     PDict [(''text'', PInt 5)]]))\<rparr>"

section \<open>Invariants\<close>

text \<open>What every pass through the loop of \<^verbatim>\<open>generate_quiz\<close> keeps true.\<close>

definition quiz_inv :: "nat \<Rightarrow> nat \<Rightarrow> loop_state \<Rightarrow> bool" where
  "quiz_inv count mx st =
     (mcq_calls (trace st) = attempts st
      \<and> chat_calls (trace st) \<le> attempts st
      \<and> retrieve_calls (trace st) = 1
      \<and> attempts st \<le> mx
      \<and> length (questions st) \<le> count
      \<and> length (questions st) \<le> attempts st
      \<and> list_all mcq_shape_ok (questions st)
      \<and> distinct (map dedup_key (questions st))
      \<and> set (map dedup_key (questions st)) = asked_questions st)"

text \<open>The loop state when the generator gives the same question every time.\<close>

definition one_kept :: "pydict \<Rightarrow> loop_state \<Rightarrow> bool" where
  "one_kept mcq a =
     ((attempts a = 0 \<and> questions a = [] \<and> asked_questions a = {})
      \<or> (questions a = [mcq] \<and> asked_questions a = {dedup_key mcq}))"




declare quiz_loop.simps [simp del]

declare digits.simps [simp del]

section \<open>The generator and one pass through the loop\<close>

lemma get_chunks_trace:
  "snd (get_chunks cfg s u k tr) = tr @ [Retrieve s u k]"
  by (simp add: get_chunks_def split: option.splits)

lemma isinstance_str_iff: "isinstance_str v \<longleftrightarrow> (\<exists>s. v = PStr s)"
  by (cases v) simp_all

lemma isinstance_list_iff: "isinstance_list v \<longleftrightarrow> (\<exists>xs. v = PList xs)"
  by (cases v) simp_all

lemma isinstance_int_iff: "isinstance_int v \<longleftrightarrow> (\<exists>i. v = PInt i) \<or> (\<exists>b. v = PBool b)"
  by (cases v) simp_all

lemma dict_get_eq_iff:
  "v \<noteq> PNone \<Longrightarrow> dict_get d k = v \<longleftrightarrow> map_of d k = Some v"
  by (auto simp: dict_get_def split: option.splits)

lemma mcq_shape_okD:
  assumes "mcq_shape_ok data"
  shows "\<exists>q opts e. map_of data ''question'' = Some (PStr q)
           \<and> map_of data ''options'' = Some (PList opts) \<and> length opts = 4
           \<and> ((\<exists>i. map_of data ''correct_index'' = Some (PInt i))
               \<or> (\<exists>b. map_of data ''correct_index'' = Some (PBool b)))
           \<and> map_of data ''explanation'' = Some (PStr e)"
  using assms
  by (auto simp: mcq_shape_ok_def isinstance_str_iff isinstance_list_iff isinstance_int_iff
      dict_get_def split: option.splits)

lemma mcq_result:
  "fst (generate_mcq_from_context cfg ctx asked tr) = [] \<or>
   mcq_shape_ok (fst (generate_mcq_from_context cfg ctx asked tr))"
  by (simp add: generate_mcq_from_context_def Let_def split: option.splits pyval.splits)

lemma mcq_trace_cases:
  "snd (generate_mcq_from_context cfg ctx asked tr) = tr @ [CallMcq] \<or>
   snd (generate_mcq_from_context cfg ctx asked tr) =
     tr @ [CallMcq, ChatCompletion (McqPrompt asked (take 3000 ctx))]"
  by (simp add: generate_mcq_from_context_def Let_def split: option.splits pyval.splits)

lemma mcq_trace_counts:
  "mcq_calls (snd (generate_mcq_from_context cfg ctx asked tr)) = Suc (mcq_calls tr)"
  "chat_calls (snd (generate_mcq_from_context cfg ctx asked tr)) \<le> Suc (chat_calls tr)"
  "retrieve_calls (snd (generate_mcq_from_context cfg ctx asked tr)) = retrieve_calls tr"
  using mcq_trace_cases [of cfg ctx asked tr]
  by (auto simp: mcq_calls_def chat_calls_def retrieve_calls_def)

text \<open>The body of the loop, by what the generator returned.\<close>

lemma quiz_step_cases:
  assumes "generate_mcq_from_context cfg ctx (asked_questions st) (trace st) = (mcq, tr)"
  shows "quiz_step cfg ctx st =
     Inr (if mcq = [] \<or> dedup_key mcq \<in> asked_questions st
          then st\<lparr>attempts := Suc (attempts st), trace := tr\<rparr>
          else st\<lparr>attempts := Suc (attempts st), trace := tr,
                  asked_questions := insert (dedup_key mcq) (asked_questions st),
                  questions := questions st @ [mcq]\<rparr>)"
proof (cases "mcq = []")
  case True
  with assms show ?thesis by (simp add: quiz_step_def)
next
  case False
  with mcq_result [of cfg ctx "asked_questions st" "trace st"] assms
  have "mcq_shape_ok mcq" by simp
  then obtain q where q: "map_of mcq ''question'' = Some (PStr q)"
    using mcq_shape_okD by blast
  with assms False show ?thesis
    by (simp add: quiz_step_def dedup_key_def question_text_def Let_def)
qed

lemma quiz_loop_stop:
  "\<not> (length (questions st) < count \<and> attempts st < mx) \<Longrightarrow>
   quiz_loop cfg ctx count mx st = Inr st"
  by (subst quiz_loop.simps) auto

lemma quiz_loop_step:
  "length (questions st) < count \<Longrightarrow> attempts st < mx \<Longrightarrow> quiz_step cfg ctx st = Inr s1 \<Longrightarrow>
   quiz_loop cfg ctx count mx st = quiz_loop cfg ctx count mx s1"
  by (subst quiz_loop.simps) auto

lemma quiz_step_total: "\<exists>s1. quiz_step cfg ctx st = Inr s1"
  using quiz_step_cases [of cfg ctx st] by (metis surj_pair)

lemma quiz_loop_total: "\<exists>st'. quiz_loop cfg ctx count mx st = Inr st'"
proof (induction cfg ctx count mx st rule: quiz_loop.induct)
  case (1 cfg ctx count mx st)
  show ?case
  proof (cases "length (questions st) < count \<and> attempts st < mx")
    case True
    obtain s1 where s1: "quiz_step cfg ctx st = Inr s1" using quiz_step_total by blast
    from "1.IH" [OF True s1] obtain st' where "quiz_loop cfg ctx count mx s1 = Inr st'" by blast
    with True s1 show ?thesis by (simp add: quiz_loop_step)
  next
    case False
    then show ?thesis by (simp add: quiz_loop_stop)
  qed
qed

lemma quiz_loop_invariant_aux:
  assumes "quiz_loop cfg ctx count mx st = Inr st'"
    and "P st"
    and "\<forall>s s'. P s \<and> length (questions s) < count \<and> attempts s < mx \<and>
           quiz_step cfg ctx s = Inr s' \<longrightarrow> P s'"
  shows "P st' \<and> \<not> (length (questions st') < count \<and> attempts st' < mx)"
  using assms
proof (induction cfg ctx count mx st rule: quiz_loop.induct)
  case (1 cfg ctx count mx st)
  show ?case
  proof (cases "length (questions st) < count \<and> attempts st < mx")
    case True
    obtain s1 where s1: "quiz_step cfg ctx st = Inr s1" using quiz_step_total by blast
    from True s1 "1.prems"(1) have run: "quiz_loop cfg ctx count mx s1 = Inr st'"
      by (simp add: quiz_loop_step)
    have "P s1" using "1.prems"(2,3) True s1 by blast
    from "1.IH" [OF True s1 run this "1.prems"(3)] show ?thesis .
  next
    case False
    with "1.prems"(1,2) show ?thesis by (simp add: quiz_loop_stop)
  qed
qed

lemma quiz_loop_invariant:
  assumes "quiz_loop cfg ctx count mx st = Inr st'"
    and "P st"
    and "\<And>s s'. P s \<Longrightarrow> length (questions s) < count \<Longrightarrow> attempts s < mx \<Longrightarrow>
           quiz_step cfg ctx s = Inr s' \<Longrightarrow> P s'"
  shows "P st'" and "\<not> (length (questions st') < count \<and> attempts st' < mx)"
  using quiz_loop_invariant_aux [of cfg ctx count mx st st' P] assms by blast+

section \<open>Assembling the context\<close>

lemma chunk_text_str:
  assumes "chunk_ok (PDict entry)" and "py_truthy (dict_get entry ''text'')"
  shows "isinstance_str (dict_get_default entry ''text'' (PStr []))"
  using assms
  by (auto simp: chunk_ok_def dict_get_def dict_get_default_def split: option.splits)

lemma chunk_texts_ok:
  "list_all chunk_ok cs \<Longrightarrow> list_all isinstance_str items \<Longrightarrow>
   \<exists>items'. chunk_texts items cs = Inr items' \<and> list_all isinstance_str items'"
proof (induction cs arbitrary: items)
  case Nil
  then show ?case by simp
next
  case (Cons c cs)
  from Cons.prems(1) obtain entry where c: "c = PDict entry"
    by (cases c) (simp_all add: chunk_ok_def)
  show ?case
  proof (cases "py_truthy (dict_get entry ''text'')")
    case True
    with Cons.prems c have "list_all isinstance_str (items @ [dict_get_default entry ''text'' (PStr [])])"
      using chunk_text_str [of entry] by simp
    with Cons.IH [of "items @ [dict_get_default entry ''text'' (PStr [])]"] Cons.prems(1) True c
    show ?thesis by simp
  next
    case False
    with Cons.IH [of items] Cons.prems c show ?thesis by simp
  qed
qed

lemma str_items_ok: "list_all isinstance_str items \<Longrightarrow> \<exists>ss. str_items items = Inr ss"
proof (induction items)
  case Nil
  then show ?case by simp
next
  case (Cons v items)
  then obtain s where "v = PStr s" by (auto simp: isinstance_str_iff)
  with Cons show ?case by auto
qed

lemma build_context_ok: "list_all chunk_ok cs \<Longrightarrow> \<exists>ctx. build_context (PList cs) = Inr ctx"
proof -
  assume "list_all chunk_ok cs"
  from chunk_texts_ok [OF this, of "[]"] obtain items where
    i: "chunk_texts [] cs = Inr items" "list_all isinstance_str items" by auto
  from str_items_ok [OF i(2)] obtain ss where "str_items items = Inr ss" by blast
  with i(1) show ?thesis by (simp add: build_context_def)
qed

lemma context_ok:
  assumes "chunks_ok (retrieve_context cfg s u k)"
  shows "\<exists>ctx. build_context (fst (get_chunks cfg s u k [])) = Inr ctx"
proof (cases "retrieve_context cfg s u k")
  case None
  then show ?thesis by (simp add: get_chunks_def build_context_def)
next
  case (Some v)
  with assms obtain cs where v: "v = PList cs" "list_all chunk_ok cs"
    by (cases v) (simp_all add: chunks_ok_def)
  with Some build_context_ok [of cs] show ?thesis by (simp add: get_chunks_def)
qed

section \<open>The loop invariant and the public function\<close>

lemma quiz_inv_start: "quiz_inv count mx (quiz_start s u)"
  by (simp add: quiz_inv_def quiz_start_def mcq_calls_def chat_calls_def retrieve_calls_def)

lemma quiz_inv_step:
  assumes inv: "quiz_inv count mx st"
    and guard: "length (questions st) < count" "attempts st < mx"
    and step: "quiz_step cfg ctx st = Inr st'"
  shows "quiz_inv count mx st'"
proof -
  obtain mcq tr where w: "generate_mcq_from_context cfg ctx (asked_questions st) (trace st) = (mcq, tr)"
    by (cases "generate_mcq_from_context cfg ctx (asked_questions st) (trace st)")
  have tr: "mcq_calls tr = Suc (mcq_calls (trace st))" "chat_calls tr \<le> Suc (chat_calls (trace st))"
    "retrieve_calls tr = retrieve_calls (trace st)"
    using mcq_trace_counts [of cfg ctx "asked_questions st" "trace st"] w by simp_all
  have ok: "mcq = [] \<or> mcq_shape_ok mcq"
    using mcq_result [of cfg ctx "asked_questions st" "trace st"] w by simp
  from quiz_step_cases [OF w] step have st': "st' =
     (if mcq = [] \<or> dedup_key mcq \<in> asked_questions st
      then st\<lparr>attempts := Suc (attempts st), trace := tr\<rparr>
      else st\<lparr>attempts := Suc (attempts st), trace := tr,
              asked_questions := insert (dedup_key mcq) (asked_questions st),
              questions := questions st @ [mcq]\<rparr>)" by simp
  show ?thesis
  proof (cases "mcq = [] \<or> dedup_key mcq \<in> asked_questions st")
    case True
    with st' inv guard tr show ?thesis by (simp add: quiz_inv_def)
  next
    case False
    with st' inv guard tr ok show ?thesis by (auto simp: quiz_inv_def)
  qed
qed

lemma quiz_loop_inv:
  assumes "quiz_loop cfg ctx count mx (quiz_start s u) = Inr st"
  shows "quiz_inv count mx st"
    and "\<not> (length (questions st) < count \<and> attempts st < mx)"
  using quiz_loop_invariant [OF assms, of "quiz_inv count mx"] quiz_inv_start quiz_inv_step
  by blast+

lemma generate_quiz_run:
  assumes "RAG_AVAILABLE cfg" and "quiz_context cfg s u = Inr ctx" and "200 \<le> length ctx"
    and "quiz_loop cfg ctx (count_get DIFFICULTY_QUESTION_COUNT d 8)
           (count_get DIFFICULTY_QUESTION_COUNT d 8 * 4) (quiz_start s u) = Inr st"
  shows "generate_quiz cfg s u d =
     Inr (if questions st = [] then empty_quiz ''MCQ generation failed''
          else [(''success'', PBool True), (''difficulty'', PStr d),
                (''questions'', PList (map PDict (questions st)))],
          trace st)"
proof -
  obtain chunks tr where g: "get_chunks cfg s u 40 [] = (chunks, tr)"
    by (cases "get_chunks cfg s u 40 []")
  then have tr: "tr = [Retrieve s u 40]" using get_chunks_trace [of cfg s u 40 "[]"] by simp
  from g assms(2) have c: "build_context chunks = Inr ctx" by (simp add: quiz_context_def)
  from assms g tr c show ?thesis
    by (simp add: generate_quiz_def quiz_start_def Let_def)
qed

lemma generate_quiz_short:
  assumes "RAG_AVAILABLE cfg" and "quiz_context cfg s u = Inr ctx" and "length ctx < 200"
  shows "generate_quiz cfg s u d = Inr (empty_quiz ''Insufficient content'', [Retrieve s u 40])"
proof -
  obtain chunks tr where g: "get_chunks cfg s u 40 [] = (chunks, tr)"
    by (cases "get_chunks cfg s u 40 []")
  then have tr: "tr = [Retrieve s u 40]" using get_chunks_trace [of cfg s u 40 "[]"] by simp
  from g assms(2) have c: "build_context chunks = Inr ctx" by (simp add: quiz_context_def)
  from assms g tr c show ?thesis
    by (simp add: generate_quiz_def Let_def)
qed

lemma generate_quiz_raise:
  assumes "RAG_AVAILABLE cfg" and "quiz_context cfg s u = Inl x"
  shows "generate_quiz cfg s u d = Inl x"
proof -
  obtain chunks tr where g: "get_chunks cfg s u 40 [] = (chunks, tr)"
    by (cases "get_chunks cfg s u 40 []")
  from g assms(2) have c: "build_context chunks = Inl x" by (simp add: quiz_context_def)
  from assms g c show ?thesis
    by (simp add: generate_quiz_def Let_def)
qed

lemma generate_quiz_no_rag:
  "\<not> RAG_AVAILABLE cfg \<Longrightarrow>
   generate_quiz cfg s u d = Inr (empty_quiz ''Document service not available'', [])"
  by (simp add: generate_quiz_def)

section \<open>Two extreme generators\<close>

lemma count_get_cases:
  "count_get DIFFICULTY_QUESTION_COUNT d 8 \<in> {5, 8, 10}"
  by (simp add: count_get_def DIFFICULTY_QUESTION_COUNT_def)

lemma count_get_pos: "0 < count_get DIFFICULTY_QUESTION_COUNT d 8"
  using count_get_cases [of d] by auto

lemma quiz_step_questions:
  assumes "fst (generate_mcq_from_context cfg ctx (asked_questions a) (trace a)) = mcq"
    and "quiz_step cfg ctx a = Inr b"
  shows "attempts b = Suc (attempts a)"
    and "mcq = [] \<or> dedup_key mcq \<in> asked_questions a \<Longrightarrow>
         questions b = questions a \<and> asked_questions b = asked_questions a"
    and "mcq \<noteq> [] \<Longrightarrow> dedup_key mcq \<notin> asked_questions a \<Longrightarrow>
         questions b = questions a @ [mcq] \<and>
         asked_questions b = insert (dedup_key mcq) (asked_questions a)"
proof -
  obtain tr where w: "generate_mcq_from_context cfg ctx (asked_questions a) (trace a) = (mcq, tr)"
    using assms(1) by (cases "generate_mcq_from_context cfg ctx (asked_questions a) (trace a)") simp
  note eq = quiz_step_cases [OF w]
  from eq assms(2) show "attempts b = Suc (attempts a)" by (auto split: if_splits)
  show "questions b = questions a \<and> asked_questions b = asked_questions a"
    if "mcq = [] \<or> dedup_key mcq \<in> asked_questions a"
    using eq assms(2) that by (simp split: if_splits)
  show "questions b = questions a @ [mcq] \<and>
         asked_questions b = insert (dedup_key mcq) (asked_questions a)"
    if "mcq \<noteq> []" "dedup_key mcq \<notin> asked_questions a"
    using eq assms(2) that by (simp split: if_splits)
qed

text \<open>A generator that never produces anything: the loop spends its whole budget.\<close>

lemma quiz_loop_no_output:
  assumes none: "\<forall>asked tr. fst (generate_mcq_from_context cfg ctx asked tr) = []"
    and run: "quiz_loop cfg ctx count mx (quiz_start s u) = Inr st"
    and pos: "0 < count"
  shows "questions st = [] \<and> attempts st = mx"
proof -
  have step: "questions b = []" if "questions a = []" "quiz_step cfg ctx a = Inr b" for a b
  proof -
    from none have "fst (generate_mcq_from_context cfg ctx (asked_questions a) (trace a)) = []"
      by blast
    from quiz_step_questions(2) [OF this that(2)] that(1) show ?thesis by simp
  qed
  have "questions (quiz_start s u) = []" by (simp add: quiz_start_def)
  from quiz_loop_invariant(1) [OF run, of "\<lambda>a. questions a = []", OF this] step
  have q: "questions st = []" by blast
  from quiz_loop_inv [OF run] have "attempts st \<le> mx"
    and "\<not> (length (questions st) < count \<and> attempts st < mx)"
    by (simp_all add: quiz_inv_def)
  with q pos show ?thesis by simp
qed

lemma mcq_no_llm:
  "\<not> GROQ_AVAILABLE cfg \<or> client cfg = None \<Longrightarrow>
   generate_mcq_from_context cfg ctx asked tr = ([], tr @ [CallMcq])"
  by (auto simp: generate_mcq_from_context_def Let_def)

text \<open>A generator that always produces the same question: exactly one is kept.\<close>

lemma quiz_loop_constant_reply:
  assumes same: "\<forall>asked tr. fst (generate_mcq_from_context cfg ctx asked tr) = mcq"
    and ne: "mcq \<noteq> []"
    and run: "quiz_loop cfg ctx count mx (quiz_start s u) = Inr st"
    and pos: "0 < count" "0 < mx"
  shows "questions st = [mcq]"
proof -
  have step: "one_kept mcq b" if a: "one_kept mcq a" and b: "quiz_step cfg ctx a = Inr b" for a b
  proof -
    from same have w: "fst (generate_mcq_from_context cfg ctx (asked_questions a) (trace a)) = mcq"
      by blast
    note q = quiz_step_questions [OF w b]
    show ?thesis
    proof (cases "questions a = []")
      case True
      with a have "asked_questions a = {}" by (simp add: one_kept_def)
      with q(3) ne True show ?thesis by (simp add: one_kept_def)
    next
      case False
      with a have "questions a = [mcq]" "asked_questions a = {dedup_key mcq}"
        by (simp_all add: one_kept_def)
      with q(2) show ?thesis by (simp add: one_kept_def)
    qed
  qed
  have "one_kept mcq (quiz_start s u)" by (simp add: one_kept_def quiz_start_def)
  from quiz_loop_invariant [OF run, of "one_kept mcq", OF this] step
  have k: "one_kept mcq st" and stop: "\<not> (length (questions st) < count \<and> attempts st < mx)"
    by blast+
  show ?thesis
  proof (cases "questions st = []")
    case True
    with k have "attempts st = 0" by (simp add: one_kept_def)
    with True stop pos show ?thesis by simp
  next
    case False
    with k show ?thesis by (simp add: one_kept_def)
  qed
qed

section \<open>Stripping is idempotent\<close>


lemma py_strip_empty [simp]: "py_strip [] = []"
  by (simp add: py_strip_def)



section \<open>Flashcards\<close>




lemma flashcards_trace_cases:
  "snd (generate_flashcards_from_context cfg ctx n tr) = tr @ [CallFlashcards n] \<or>
   snd (generate_flashcards_from_context cfg ctx n tr) =
     tr @ [CallFlashcards n, ChatCompletion (FlashcardPrompt n (take 4000 ctx))]"
  by (simp add: generate_flashcards_from_context_def Let_def split: option.splits)






lemma generate_flashcards_run:
  assumes "RAG_AVAILABLE cfg" and "flashcards_context cfg s u = Inr ctx" and "200 \<le> length ctx"
  shows "generate_flashcards cfg s u d =
     Inr ([(''success'', PBool True), (''difficulty'', PStr d),
           (''flashcards'', PList (fst (generate_flashcards_from_context cfg
               ctx (count_get FLASHCARD_COUNT d 8) [Retrieve s u 30])))],
          snd (generate_flashcards_from_context cfg
               ctx (count_get FLASHCARD_COUNT d 8) [Retrieve s u 30]))"
proof -
  obtain chunks tr where g: "get_chunks cfg s u 30 [] = (chunks, tr)"
    by (cases "get_chunks cfg s u 30 []")
  then have tr: "tr = [Retrieve s u 30]" using get_chunks_trace [of cfg s u 30 "[]"] by simp
  from g assms(2) have c: "build_context chunks = Inr ctx"
    by (simp add: flashcards_context_def)
  from assms g tr c show ?thesis
    by (simp add: generate_flashcards_def Let_def split: prod.splits)
qed

lemma generate_flashcards_short:
  assumes "RAG_AVAILABLE cfg" and "flashcards_context cfg s u = Inr ctx" and "length ctx < 200"
  shows "generate_flashcards cfg s u d =
     Inr ([(''success'', PBool False), (''flashcards'', PList [])], [Retrieve s u 30])"
proof -
  obtain chunks tr where g: "get_chunks cfg s u 30 [] = (chunks, tr)"
    by (cases "get_chunks cfg s u 30 []")
  then have tr: "tr = [Retrieve s u 30]" using get_chunks_trace [of cfg s u 30 "[]"] by simp
  from g assms(2) have c: "build_context chunks = Inr ctx"
    by (simp add: flashcards_context_def)
  from assms g tr c show ?thesis
    by (simp add: generate_flashcards_def Let_def)
qed

lemma generate_flashcards_raise:
  assumes "RAG_AVAILABLE cfg" and "flashcards_context cfg s u = Inl x"
  shows "generate_flashcards cfg s u d = Inl x"
proof -
  obtain chunks tr where g: "get_chunks cfg s u 30 [] = (chunks, tr)"
    by (cases "get_chunks cfg s u 30 []")
  from g assms(2) have c: "build_context chunks = Inl x" by (simp add: flashcards_context_def)
  from assms g c show ?thesis
    by (simp add: generate_flashcards_def Let_def)
qed

lemma generate_flashcards_no_rag:
  "\<not> RAG_AVAILABLE cfg \<Longrightarrow>
   generate_flashcards cfg s u d = Inr ([(''success'', PBool False), (''flashcards'', PList [])], [])"
  by (simp add: generate_flashcards_def)

section \<open>Facts about the sample inputs and the public functions\<close>

lemma study_text_length: "length study_text = 200"
  by (simp add: study_text_def)

lemma short_text_length: "length short_text = 50"
  by (simp add: short_text_def)

lemma study_text_ne: "study_text \<noteq> []"
  using study_text_length by auto

lemma short_text_ne: "short_text \<noteq> []"
  using short_text_length by auto

lemma sample_contexts:
  "quiz_context cfg_ok s u = Inr study_text"
  "quiz_context cfg_odd s u = Inr study_text"
  "quiz_context cfg_no_llm s u = Inr study_text"
  "quiz_context cfg_short s u = Inr short_text"
  "flashcards_context cfg_ok s u = Inr study_text"
  "flashcards_context cfg_no_llm s u = Inr study_text"
  "flashcards_context cfg_short s u = Inr short_text"
  "quiz_context cfg_number s u = Inl TypeError"
  "flashcards_context cfg_number s u = Inl TypeError"
  by (simp_all add: quiz_context_def flashcards_context_def get_chunks_def build_context_def
      dict_get_def dict_get_default_def cfg_ok_def cfg_odd_def cfg_no_llm_def cfg_short_def
      cfg_number_def study_text_ne short_text_ne)

lemma sample_flags:
  "RAG_AVAILABLE cfg_ok" "RAG_AVAILABLE cfg_odd" "RAG_AVAILABLE cfg_no_llm"
  "RAG_AVAILABLE cfg_short" "\<not> RAG_AVAILABLE cfg_no_rag"
  "\<not> GROQ_AVAILABLE cfg_no_llm" "RAG_AVAILABLE cfg_number"
  by (simp_all add: cfg_ok_def cfg_odd_def cfg_no_llm_def cfg_short_def cfg_no_rag_def
      cfg_number_def)

lemma search_reply_mcq: "search_object (py_strip reply_mcq) = Some text_mcq"
  by (simp add: reply_mcq_def text_mcq_def py_strip_def is_space_def)

lemma search_reply_odd: "search_object (py_strip reply_odd) = Some reply_odd"
  by (simp add: reply_odd_def py_strip_def is_space_def)

lemma search_reply_cards: "search_array (py_strip reply_cards) = Some text_cards"
  by (simp add: reply_cards_def text_cards_def py_strip_def is_space_def)

lemma loads_samples:
  "sample_loads text_mcq = Some (PDict value_mcq)"
  "sample_loads reply_odd = Some (PDict value_odd)"
  "sample_loads text_cards = Some value_cards"
  by (simp_all add: sample_loads_def text_mcq_def reply_odd_def text_cards_def)

lemma shape_samples: "mcq_shape_ok value_mcq" "mcq_shape_ok value_odd"
  by (simp_all add: mcq_shape_ok_def value_mcq_def value_odd_def dict_get_def)

lemma mcq_cfg_ok: "fst (generate_mcq_from_context cfg_ok ctx asked tr) = value_mcq"
  by (simp add: generate_mcq_from_context_def cfg_ok_def sample_client_def Let_def
      search_reply_mcq loads_samples shape_samples)

lemma mcq_cfg_odd: "fst (generate_mcq_from_context cfg_odd ctx asked tr) = value_odd"
  by (simp add: generate_mcq_from_context_def cfg_ok_def cfg_odd_def sample_client_def Let_def
      search_reply_odd loads_samples shape_samples)

lemma value_ne: "value_mcq \<noteq> []" "value_odd \<noteq> []"
  by (simp_all add: value_mcq_def value_odd_def)

lemma easy_count: "count_get DIFFICULTY_QUESTION_COUNT ''easy'' 8 = 5"
  by (simp add: count_get_def DIFFICULTY_QUESTION_COUNT_def)

text \<open>What \<^verbatim>\<open>generate_quiz\<close> does, in each of its four situations.\<close>

lemma generate_quiz_cases:
  obtains (no_rag) "\<not> RAG_AVAILABLE cfg"
      "generate_quiz cfg s u d = Inr (empty_quiz ''Document service not available'', [])"
  | (raised) x where "RAG_AVAILABLE cfg" "quiz_context cfg s u = Inl x"
      "generate_quiz cfg s u d = Inl x"
  | (short) ctx where "RAG_AVAILABLE cfg" "quiz_context cfg s u = Inr ctx" "length ctx < 200"
      "generate_quiz cfg s u d = Inr (empty_quiz ''Insufficient content'', [Retrieve s u 40])"
  | (run) ctx st where "RAG_AVAILABLE cfg" "quiz_context cfg s u = Inr ctx" "200 \<le> length ctx"
      "quiz_loop cfg ctx (count_get DIFFICULTY_QUESTION_COUNT d 8)
         (count_get DIFFICULTY_QUESTION_COUNT d 8 * 4) (quiz_start s u) = Inr st"
      "generate_quiz cfg s u d =
         Inr (if questions st = [] then empty_quiz ''MCQ generation failed''
              else [(''success'', PBool True), (''difficulty'', PStr d),
                    (''questions'', PList (map PDict (questions st)))],
              trace st)"
proof (cases "RAG_AVAILABLE cfg")
  case False
  with no_rag generate_quiz_no_rag show ?thesis by blast
next
  case rag: True
  show ?thesis
  proof (cases "quiz_context cfg s u")
    case (Inl x)
    from raised [OF rag Inl generate_quiz_raise [OF rag Inl]] show ?thesis .
  next
    case (Inr ctx)
    show ?thesis
    proof (cases "length ctx < 200")
      case True
      from short [OF rag Inr True generate_quiz_short [OF rag Inr True]] show ?thesis .
    next
      case False
      then have len: "200 \<le> length ctx" by simp
      obtain st where st: "quiz_loop cfg ctx (count_get DIFFICULTY_QUESTION_COUNT d 8)
           (count_get DIFFICULTY_QUESTION_COUNT d 8 * 4) (quiz_start s u) = Inr st"
        using quiz_loop_total by blast
      from run [OF rag Inr len st generate_quiz_run [OF rag Inr len st]] show ?thesis .
    qed
  qed
qed

text \<open>The same for \<^verbatim>\<open>generate_flashcards\<close>.\<close>

lemma generate_flashcards_cases:
  obtains (no_rag) "\<not> RAG_AVAILABLE cfg"
      "generate_flashcards cfg s u d =
         Inr ([(''success'', PBool False), (''flashcards'', PList [])], [])"
  | (raised) x where "RAG_AVAILABLE cfg" "flashcards_context cfg s u = Inl x"
      "generate_flashcards cfg s u d = Inl x"
  | (short) ctx where "RAG_AVAILABLE cfg" "flashcards_context cfg s u = Inr ctx"
      "length ctx < 200"
      "generate_flashcards cfg s u d =
         Inr ([(''success'', PBool False), (''flashcards'', PList [])], [Retrieve s u 30])"
  | (run) ctx where "RAG_AVAILABLE cfg" "flashcards_context cfg s u = Inr ctx"
      "200 \<le> length ctx"
      "generate_flashcards cfg s u d =
         Inr ([(''success'', PBool True), (''difficulty'', PStr d),
               (''flashcards'', PList (fst (generate_flashcards_from_context cfg
                   ctx (count_get FLASHCARD_COUNT d 8) [Retrieve s u 30])))],
              snd (generate_flashcards_from_context cfg
                   ctx (count_get FLASHCARD_COUNT d 8) [Retrieve s u 30]))"
proof (cases "RAG_AVAILABLE cfg")
  case False
  with no_rag generate_flashcards_no_rag show ?thesis by blast
next
  case rag: True
  show ?thesis
  proof (cases "flashcards_context cfg s u")
    case (Inl x)
    from raised [OF rag Inl generate_flashcards_raise [OF rag Inl]] show ?thesis .
  next
    case (Inr ctx)
    show ?thesis
    proof (cases "length ctx < 200")
      case True
      from short [OF rag Inr True generate_flashcards_short [OF rag Inr True]] show ?thesis .
    next
      case False
      then have len: "200 \<le> length ctx" by simp
      from run [OF rag Inr len generate_flashcards_run [OF rag Inr len]] show ?thesis .
    qed
  qed
qed

lemma quiz_same_reply:
  assumes "RAG_AVAILABLE cfg" and "quiz_context cfg s u = Inr ctx" and "200 \<le> length ctx"
    and "\<forall>asked tr. fst (generate_mcq_from_context cfg ctx asked tr) = mcq"
    and "mcq \<noteq> []"
  shows "\<exists>tr. generate_quiz cfg s u d =
     Inr ([(''success'', PBool True), (''difficulty'', PStr d),
           (''questions'', PList [PDict mcq])], tr)"
proof -
  obtain st where st: "quiz_loop cfg ctx (count_get DIFFICULTY_QUESTION_COUNT d 8)
         (count_get DIFFICULTY_QUESTION_COUNT d 8 * 4) (quiz_start s u) = Inr st"
    using quiz_loop_total by blast
  have "questions st = [mcq]"
    using quiz_loop_constant_reply [OF assms(4,5) st] count_get_pos [of d] by simp
  with generate_quiz_run [OF assms(1,2,3) st] show ?thesis by simp
qed

lemma quiz_cfg_ok:
  "\<exists>tr. generate_quiz cfg_ok s u d =
     Inr ([(''success'', PBool True), (''difficulty'', PStr d),
           (''questions'', PList [PDict value_mcq])], tr)"
  using quiz_same_reply [of cfg_ok s u study_text value_mcq d]
  by (simp add: sample_flags sample_contexts study_text_length mcq_cfg_ok value_ne)

lemma quiz_cfg_odd:
  "\<exists>tr. generate_quiz cfg_odd s u d =
     Inr ([(''success'', PBool True), (''difficulty'', PStr d),
           (''questions'', PList [PDict value_odd])], tr)"
  using quiz_same_reply [of cfg_odd s u study_text value_odd d]
  by (simp add: sample_flags sample_contexts study_text_length mcq_cfg_odd value_ne)

lemma mcq_parsed:
  "fst (generate_mcq_from_context cfg ctx asked tr) = [] \<or>
   (\<exists>m. json_loads cfg m = Some (PDict (fst (generate_mcq_from_context cfg ctx asked tr))))"
  by (auto simp: generate_mcq_from_context_def Let_def split: option.splits pyval.splits)

lemma cards_cfg_ok:
  "generate_flashcards_from_context cfg_ok study_text 10 [Retrieve 1 2 30] =
     ([PDict [(''question'', PStr ''What is current?''), (''answer'', PStr ''Flow of charge''),
              (''front'', PStr ''What is current?''), (''back'', PStr ''Flow of charge'')],
       PDict [(''question'', PStr ''5''), (''answer'', PStr ''None''),
              (''front'', PStr ''5''), (''back'', PStr ''None'')]],
      [Retrieve 1 2 30, CallFlashcards 10, ChatCompletion (FlashcardPrompt 10 study_text)])"
proof -
  have t: "take 4000 study_text = study_text" by (simp add: study_text_length)
  have c: "cards_of (\<lambda>v. []) value_cards =
     Some [PDict [(''question'', PStr ''What is current?''), (''answer'', PStr ''Flow of charge''),
              (''front'', PStr ''What is current?''), (''back'', PStr ''Flow of charge'')],
       PDict [(''question'', PStr ''5''), (''answer'', PStr ''None''),
              (''front'', PStr ''5''), (''back'', PStr ''None'')]]"
    by (simp add: value_cards_def dict_get_default_def flashcard_def py_strip_def is_space_def
        digits.simps Let_def)
  show ?thesis
    by (simp add: generate_flashcards_from_context_def cfg_ok_def sample_client_def Let_def
        search_reply_cards loads_samples t c chat_calls_def)
qed


section \<open>The claims\<close>

text \<open>
  C1, as stated, fails. The model answers
  \<^verbatim>\<open>{"question": "Q", "options": [1, 2, 3, 4], "correct_index": 9, "explanation": "E"}\<close>
  every time. The options are numbers and the index is 9, yet \<^verbatim>\<open>generate_quiz\<close> returns
  this object as its one question.
\<close>

theorem C1_counterexample:
  "result_questions (generate_quiz cfg_odd 1 1 ''easy'') = [PDict value_odd]
   \<and> \<not> spec_question_shape value_odd"
proof -
  from quiz_cfg_odd [of 1 1 "''easy''"] obtain tr where
    "generate_quiz cfg_odd 1 1 ''easy'' =
       Inr ([(''success'', PBool True), (''difficulty'', PStr ''easy''),
             (''questions'', PList [PDict value_odd])], tr)" by blast
  then have "result_questions (generate_quiz cfg_odd 1 1 ''easy'') = [PDict value_odd]"
    by (simp add: result_questions_def dict_get_def)
  moreover have "\<not> spec_question_shape value_odd"
    by (simp add: spec_question_shape_def value_odd_def dict_get_def)
  ultimately show ?thesis by simp
qed

text \<open>
  C1, amended. Every element of the question list that \<^verbatim>\<open>generate_quiz\<close> returns is a
  dictionary whose \<^verbatim>\<open>question\<close> is a string, whose \<^verbatim>\<open>options\<close> is a list of exactly four
  elements of any kind, whose \<^verbatim>\<open>correct_index\<close> is an integer of any value or a boolean,
  and whose \<^verbatim>\<open>explanation\<close> is a string. The generator returns either the empty
  dictionary or the whole parsed object, which then passes this test: nothing is
  repaired or accepted in part.
\<close>

theorem C1_accepted_shape:
  "(generate_quiz cfg s u d = Inr (e, tr) \<and> dict_get e ''questions'' = PList qs \<and> v \<in> set qs
      \<longrightarrow> (\<exists>data q opts ex. v = PDict data
             \<and> map_of data ''question'' = Some (PStr q)
             \<and> map_of data ''options'' = Some (PList opts) \<and> length opts = 4
             \<and> ((\<exists>i. map_of data ''correct_index'' = Some (PInt i))
                 \<or> (\<exists>b. map_of data ''correct_index'' = Some (PBool b)))
             \<and> map_of data ''explanation'' = Some (PStr ex)))
   \<and> (fst (generate_mcq_from_context cfg ctx asked tr0) = []
      \<or> (mcq_shape_ok (fst (generate_mcq_from_context cfg ctx asked tr0))
          \<and> (\<exists>m. json_loads cfg m = Some (PDict (fst (generate_mcq_from_context cfg ctx asked tr0))))))"
proof (intro conjI impI)
  assume a: "generate_quiz cfg s u d = Inr (e, tr) \<and> dict_get e ''questions'' = PList qs \<and> v \<in> set qs"
  have "\<exists>data. v = PDict data \<and> mcq_shape_ok data"
  proof (cases rule: generate_quiz_cases [of cfg s u d])
    case no_rag
    with a show ?thesis by (auto simp: empty_quiz_def dict_get_def)
  next
    case (raised x)
    with a show ?thesis by simp
  next
    case (short c)
    with a show ?thesis by (auto simp: empty_quiz_def dict_get_def)
  next
    case (run c st)
    from quiz_loop_inv(1) [OF run(4)] have ok: "list_all mcq_shape_ok (questions st)"
      by (simp add: quiz_inv_def)
    from run(5) a have "qs = map PDict (questions st)"
      by (auto simp: empty_quiz_def dict_get_def split: if_splits)
    with a ok show ?thesis by (auto simp: list_all_iff)
  qed
  then obtain data where "v = PDict data" "mcq_shape_ok data" by blast
  with mcq_shape_okD [of data] show "\<exists>data q opts ex. v = PDict data
             \<and> map_of data ''question'' = Some (PStr q)
             \<and> map_of data ''options'' = Some (PList opts) \<and> length opts = 4
             \<and> ((\<exists>i. map_of data ''correct_index'' = Some (PInt i))
                 \<or> (\<exists>b. map_of data ''correct_index'' = Some (PBool b)))
             \<and> map_of data ''explanation'' = Some (PStr ex)" by blast
next
  show "fst (generate_mcq_from_context cfg ctx asked tr0) = []
      \<or> (mcq_shape_ok (fst (generate_mcq_from_context cfg ctx asked tr0))
          \<and> (\<exists>m. json_loads cfg m = Some (PDict (fst (generate_mcq_from_context cfg ctx asked tr0)))))"
    using mcq_result [of cfg ctx asked tr0] mcq_parsed [of cfg ctx asked tr0] by blast
qed

text \<open>C1, an instance: the question kept when the model answers with a well-formed one.\<close>

theorem C1_accepted_shape_witness:
  "\<exists>tr. generate_quiz cfg_ok 1 1 ''easy'' =
           Inr ([(''success'', PBool True), (''difficulty'', PStr ''easy''),
                 (''questions'', PList [PDict value_mcq])], tr)
      \<and> dict_get [(''success'', PBool True), (''difficulty'', PStr ''easy''),
                 (''questions'', PList [PDict value_mcq])] ''questions'' = PList [PDict value_mcq]
      \<and> PDict value_mcq \<in> set [PDict value_mcq]
      \<and> (\<exists>q opts ex. map_of value_mcq ''question'' = Some (PStr q)
             \<and> map_of value_mcq ''options'' = Some (PList opts) \<and> length opts = 4
             \<and> ((\<exists>i. map_of value_mcq ''correct_index'' = Some (PInt i))
                 \<or> (\<exists>b. map_of value_mcq ''correct_index'' = Some (PBool b)))
             \<and> map_of value_mcq ''explanation'' = Some (PStr ex))"
proof -
  from quiz_cfg_ok [of 1 1 "''easy''"] obtain tr where r:
    "generate_quiz cfg_ok 1 1 ''easy'' =
       Inr ([(''success'', PBool True), (''difficulty'', PStr ''easy''),
             (''questions'', PList [PDict value_mcq])], tr)" by blast
  have g: "dict_get [(''success'', PBool True), (''difficulty'', PStr ''easy''),
                 (''questions'', PList [PDict value_mcq])] ''questions'' = PList [PDict value_mcq]"
    by (simp add: dict_get_def)
  from C1_accepted_shape [of cfg_ok 1 1 "''easy''" _ tr "[PDict value_mcq]" "PDict value_mcq"] r g
  show ?thesis by auto
qed

text \<open>
  C2, as stated, fails, twice. Without the retrieval service \<^verbatim>\<open>generate_flashcards\<close>
  returns a failure envelope that has no \<^verbatim>\<open>message\<close> entry. And when retrieval returns
  the chunks \<^verbatim>\<open>[{"text": "aaa..."}, {"text": 5}]\<close>, the join of the texts, which stands
  outside every \<^verbatim>\<open>try\<close>, raises \<^verbatim>\<open>TypeError\<close> out of both public functions.
\<close>

theorem C2_counterexample:
  "generate_flashcards cfg_no_rag 1 1 ''easy'' =
     Inr ([(''success'', PBool False), (''flashcards'', PList [])], [])
   \<and> map_of [(''success'', PBool False), (''flashcards'', PList [])] ''message'' = None
   \<and> generate_quiz cfg_number 1 1 ''easy'' = Inl TypeError
   \<and> generate_flashcards cfg_number 1 1 ''easy'' = Inl TypeError"
  using generate_flashcards_no_rag [of cfg_no_rag 1 1 "''easy''"]
    generate_quiz_raise [of cfg_number 1 1 TypeError "''easy''"]
    generate_flashcards_raise [of cfg_number 1 1 TypeError "''easy''"]
  by (simp add: sample_flags sample_contexts)

text \<open>
  C2, amended. When the retrieval service is missing, or retrieval raises, or it returns
  a list of dictionaries whose \<^verbatim>\<open>text\<close> entries are strings, missing or false as a
  condition, neither public function raises: each returns an envelope. Every envelope
  of \<^verbatim>\<open>generate_quiz\<close> that is no success has \<^verbatim>\<open>success\<close> false and one of three
  messages. Every envelope of \<^verbatim>\<open>generate_flashcards\<close> that is no success is exactly
  \<^verbatim>\<open>{"success": False, "flashcards": []}\<close>, with no message.
\<close>

theorem C2_failure_envelopes:
  "(\<not> RAG_AVAILABLE cfg \<or> chunks_ok (retrieve_context cfg s u 40)
      \<longrightarrow> (\<exists>e tr. generate_quiz cfg s u d = Inr (e, tr)))
   \<and> (\<not> RAG_AVAILABLE cfg \<or> chunks_ok (retrieve_context cfg s u 30)
      \<longrightarrow> (\<exists>e tr. generate_flashcards cfg s u d = Inr (e, tr)))
   \<and> (generate_quiz cfg s u d = Inr (e, tr)
      \<longrightarrow> dict_get e ''success'' = PBool True
          \<or> (dict_get e ''success'' = PBool False
              \<and> (\<exists>m. map_of e ''message'' = Some (PStr m)
                    \<and> m \<in> {''Document service not available'', ''Insufficient content'',
                            ''MCQ generation failed''})))
   \<and> (generate_flashcards cfg s u d = Inr (e', tr')
      \<longrightarrow> dict_get e' ''success'' = PBool True
          \<or> (e' = [(''success'', PBool False), (''flashcards'', PList [])]
              \<and> map_of e' ''message'' = None))"
proof (intro conjI impI)
  assume h: "\<not> RAG_AVAILABLE cfg \<or> chunks_ok (retrieve_context cfg s u 40)"
  show "\<exists>e tr. generate_quiz cfg s u d = Inr (e, tr)"
  proof (cases rule: generate_quiz_cases [of cfg s u d])
    case no_rag
    then show ?thesis by simp
  next
    case (raised x)
    with h have "chunks_ok (retrieve_context cfg s u 40)" by simp
    from context_ok [OF this] raised(2) show ?thesis by (simp add: quiz_context_def)
  next
    case (short c)
    then show ?thesis by simp
  next
    case (run c st)
    then show ?thesis by simp
  qed
next
  assume h: "\<not> RAG_AVAILABLE cfg \<or> chunks_ok (retrieve_context cfg s u 30)"
  show "\<exists>e tr. generate_flashcards cfg s u d = Inr (e, tr)"
  proof (cases rule: generate_flashcards_cases [of cfg s u d])
    case no_rag
    then show ?thesis by simp
  next
    case (raised x)
    with h have "chunks_ok (retrieve_context cfg s u 30)" by simp
    from context_ok [OF this] raised(2) show ?thesis by (simp add: flashcards_context_def)
  next
    case (short c)
    then show ?thesis by simp
  next
    case (run c)
    then show ?thesis by simp
  qed
next
  assume a: "generate_quiz cfg s u d = Inr (e, tr)"
  show "dict_get e ''success'' = PBool True
          \<or> (dict_get e ''success'' = PBool False
              \<and> (\<exists>m. map_of e ''message'' = Some (PStr m)
                    \<and> m \<in> {''Document service not available'', ''Insufficient content'',
                            ''MCQ generation failed''}))"
  proof (cases rule: generate_quiz_cases [of cfg s u d])
    case no_rag
    with a show ?thesis by (auto simp: empty_quiz_def dict_get_def)
  next
    case (raised x)
    with a show ?thesis by simp
  next
    case (short c)
    with a show ?thesis by (auto simp: empty_quiz_def dict_get_def)
  next
    case (run c st)
    with a show ?thesis by (auto simp: empty_quiz_def dict_get_def split: if_splits)
  qed
next
  assume a: "generate_flashcards cfg s u d = Inr (e', tr')"
  show "dict_get e' ''success'' = PBool True
          \<or> (e' = [(''success'', PBool False), (''flashcards'', PList [])]
              \<and> map_of e' ''message'' = None)"
  proof (cases rule: generate_flashcards_cases [of cfg s u d])
    case no_rag
    with a show ?thesis by auto
  next
    case (raised x)
    with a show ?thesis by simp
  next
    case (short c)
    with a show ?thesis by auto
  next
    case (run c)
    with a show ?thesis by (auto simp: dict_get_def)
  qed
qed

text \<open>
  C2, an instance: both functions on a context of 50 characters, retrieved as two chunks
  of which the second has no \<^verbatim>\<open>text\<close>.
\<close>

theorem C2_failure_envelopes_witness:
  "chunks_ok (retrieve_context cfg_short 1 1 40)
   \<and> chunks_ok (retrieve_context cfg_short 1 1 30)
   \<and> generate_quiz cfg_short 1 1 ''easy'' =
     Inr ([(''success'', PBool False), (''message'', PStr ''Insufficient content''),
           (''questions'', PList [])], [Retrieve 1 1 40])
   \<and> generate_flashcards cfg_short 1 1 ''easy'' =
     Inr ([(''success'', PBool False), (''flashcards'', PList [])], [Retrieve 1 1 30])
   \<and> (\<exists>e tr. generate_quiz cfg_short 1 1 ''easy'' = Inr (e, tr))
   \<and> (\<exists>e tr. generate_flashcards cfg_short 1 1 ''easy'' = Inr (e, tr))
   \<and> (dict_get [(''success'', PBool False), (''message'', PStr ''Insufficient content''),
           (''questions'', PList [])] ''success'' = PBool True
      \<or> (dict_get [(''success'', PBool False), (''message'', PStr ''Insufficient content''),
           (''questions'', PList [])] ''success'' = PBool False
          \<and> (\<exists>m. map_of [(''success'', PBool False), (''message'', PStr ''Insufficient content''),
           (''questions'', PList [])] ''message'' = Some (PStr m)
                \<and> m \<in> {''Document service not available'', ''Insufficient content'',
                        ''MCQ generation failed''})))"
proof -
  have k: "chunks_ok (retrieve_context cfg_short 1 1 40)"
    "chunks_ok (retrieve_context cfg_short 1 1 30)"
    by (simp_all add: chunks_ok_def chunk_ok_def cfg_short_def cfg_ok_def dict_get_def)
  have q: "generate_quiz cfg_short 1 1 ''easy'' =
     Inr ([(''success'', PBool False), (''message'', PStr ''Insufficient content''),
           (''questions'', PList [])], [Retrieve 1 1 40])"
    using generate_quiz_short [of cfg_short 1 1 short_text "''easy''"]
    by (simp add: sample_flags sample_contexts short_text_length empty_quiz_def)
  have f: "generate_flashcards cfg_short 1 1 ''easy'' =
     Inr ([(''success'', PBool False), (''flashcards'', PList [])], [Retrieve 1 1 30])"
    using generate_flashcards_short [of cfg_short 1 1 short_text "''easy''"]
    by (simp add: sample_flags sample_contexts short_text_length)
  from C2_failure_envelopes [of cfg_short 1 1 "''easy''"
      "[(''success'', PBool False), (''message'', PStr ''Insufficient content''),
        (''questions'', PList [])]" "[Retrieve 1 1 40]"
      "[(''success'', PBool False), (''flashcards'', PList [])]" "[Retrieve 1 1 30]"] k q f
  show ?thesis by blast
qed

text \<open>
  C3. The table gives 5 for easy, 8 for medium and 10 for hard, and any other difficulty
  gives 8; the flashcard table is the same table. \<^verbatim>\<open>generate_quiz\<close> stops with at most
  that many questions, and with fewer only after four times that many attempts;
  \<^verbatim>\<open>generate_flashcards\<close> passes that count to its generator.
\<close>

theorem C3_target_count:
  "count_get DIFFICULTY_QUESTION_COUNT ''easy'' 8 = 5
   \<and> count_get DIFFICULTY_QUESTION_COUNT ''medium'' 8 = 8
   \<and> count_get DIFFICULTY_QUESTION_COUNT ''hard'' 8 = 10
   \<and> (d \<notin> {''easy'', ''medium'', ''hard''} \<longrightarrow> count_get DIFFICULTY_QUESTION_COUNT d 8 = 8)
   \<and> count_get FLASHCARD_COUNT d 8 = count_get DIFFICULTY_QUESTION_COUNT d 8
   \<and> (RAG_AVAILABLE cfg \<and> quiz_context cfg s u = Inr ctx \<and> 200 \<le> length ctx \<longrightarrow>
        (\<exists>e tr qs. generate_quiz cfg s u d = Inr (e, tr)
           \<and> dict_get e ''questions'' = PList qs
           \<and> length qs \<le> count_get DIFFICULTY_QUESTION_COUNT d 8
           \<and> (length qs = count_get DIFFICULTY_QUESTION_COUNT d 8
               \<or> mcq_calls tr = count_get DIFFICULTY_QUESTION_COUNT d 8 * 4)))
   \<and> (RAG_AVAILABLE cfg \<and> flashcards_context cfg s u = Inr ctx' \<and> 200 \<le> length ctx' \<longrightarrow>
        (\<exists>e tr. generate_flashcards cfg s u d = Inr (e, tr)
           \<and> CallFlashcards (count_get FLASHCARD_COUNT d 8) \<in> set tr))"
proof -
  have t: "count_get DIFFICULTY_QUESTION_COUNT ''easy'' 8 = 5
   \<and> count_get DIFFICULTY_QUESTION_COUNT ''medium'' 8 = 8
   \<and> count_get DIFFICULTY_QUESTION_COUNT ''hard'' 8 = 10
   \<and> (d \<notin> {''easy'', ''medium'', ''hard''} \<longrightarrow> count_get DIFFICULTY_QUESTION_COUNT d 8 = 8)
   \<and> count_get FLASHCARD_COUNT d 8 = count_get DIFFICULTY_QUESTION_COUNT d 8"
    by (simp add: count_get_def DIFFICULTY_QUESTION_COUNT_def FLASHCARD_COUNT_def)
  have q: "\<exists>e tr qs. generate_quiz cfg s u d = Inr (e, tr)
           \<and> dict_get e ''questions'' = PList qs
           \<and> length qs \<le> count_get DIFFICULTY_QUESTION_COUNT d 8
           \<and> (length qs = count_get DIFFICULTY_QUESTION_COUNT d 8
               \<or> mcq_calls tr = count_get DIFFICULTY_QUESTION_COUNT d 8 * 4)"
    if rag: "RAG_AVAILABLE cfg" and ctx: "quiz_context cfg s u = Inr ctx" and len: "200 \<le> length ctx"
  proof -
    obtain st where st: "quiz_loop cfg ctx (count_get DIFFICULTY_QUESTION_COUNT d 8)
         (count_get DIFFICULTY_QUESTION_COUNT d 8 * 4) (quiz_start s u) = Inr st"
      using quiz_loop_total by blast
    from quiz_loop_inv [OF st] have i: "mcq_calls (trace st) = attempts st"
      "attempts st \<le> count_get DIFFICULTY_QUESTION_COUNT d 8 * 4"
      "length (questions st) \<le> count_get DIFFICULTY_QUESTION_COUNT d 8"
      "\<not> (length (questions st) < count_get DIFFICULTY_QUESTION_COUNT d 8
          \<and> attempts st < count_get DIFFICULTY_QUESTION_COUNT d 8 * 4)"
      by (simp_all add: quiz_inv_def)
    from i have fin: "length (questions st) = count_get DIFFICULTY_QUESTION_COUNT d 8
        \<or> mcq_calls (trace st) = count_get DIFFICULTY_QUESTION_COUNT d 8 * 4" by linarith
    show ?thesis
    proof (cases "questions st = []")
      case True
      with generate_quiz_run [OF rag ctx len st] i fin show ?thesis
        by (simp add: empty_quiz_def dict_get_def)
    next
      case False
      with generate_quiz_run [OF rag ctx len st] i fin show ?thesis
        by (simp add: dict_get_def)
    qed
  qed
  have f: "\<exists>e tr. generate_flashcards cfg s u d = Inr (e, tr)
           \<and> CallFlashcards (count_get FLASHCARD_COUNT d 8) \<in> set tr"
    if rag: "RAG_AVAILABLE cfg" and ctx: "flashcards_context cfg s u = Inr ctx'"
      and len: "200 \<le> length ctx'"
    using generate_flashcards_run [OF rag ctx len, of d]
      flashcards_trace_cases [of cfg ctx' "count_get FLASHCARD_COUNT d 8" "[Retrieve s u 30]"]
    by auto
  from t q f show ?thesis by blast
qed

text \<open>C3, an instance: the difficulty \<^verbatim>\<open>expert\<close> is not in the table.\<close>

theorem C3_target_count_witness:
  "''expert'' \<notin> {''easy'', ''medium'', ''hard''}
   \<and> RAG_AVAILABLE cfg_ok \<and> quiz_context cfg_ok 1 1 = Inr study_text \<and> 200 \<le> length study_text
   \<and> flashcards_context cfg_ok 1 1 = Inr study_text \<and> 200 \<le> length study_text
   \<and> count_get DIFFICULTY_QUESTION_COUNT ''expert'' 8 = 8
   \<and> count_get FLASHCARD_COUNT ''expert'' 8 = 8
   \<and> (\<exists>e tr qs. generate_quiz cfg_ok 1 1 ''expert'' = Inr (e, tr)
           \<and> dict_get e ''questions'' = PList qs
           \<and> length qs \<le> 8 \<and> (length qs = 8 \<or> mcq_calls tr = 8 * 4))
   \<and> (\<exists>e tr. generate_flashcards cfg_ok 1 1 ''expert'' = Inr (e, tr)
           \<and> CallFlashcards 8 \<in> set tr)"
proof -
  have h: "''expert'' \<notin> {''easy'', ''medium'', ''hard''}"
    "RAG_AVAILABLE cfg_ok" "quiz_context cfg_ok 1 1 = Inr study_text" "200 \<le> length study_text"
    "flashcards_context cfg_ok 1 1 = Inr study_text" "200 \<le> length study_text"
    by (simp_all add: sample_flags sample_contexts study_text_length)
  have a: "count_get DIFFICULTY_QUESTION_COUNT ''expert'' 8 = 8"
    "count_get FLASHCARD_COUNT ''expert'' 8 = 8"
    by (simp_all add: count_get_def DIFFICULTY_QUESTION_COUNT_def FLASHCARD_COUNT_def)
  from C3_target_count [where d = "''expert''" and cfg = cfg_ok and s = 1 and u = 1
      and ctx = study_text and ctx' = study_text] h show ?thesis
    unfolding a by blast
qed

text \<open>
  C4. When the retrieval service is there and the context has at least 200 characters,
  the loop runs with a budget of four times the target count. Each attempt is one call
  of the generator, which sends at most one request to the model, and the number of
  attempts never exceeds the budget. The loop gives up short of the target only when the
  budget is spent.
\<close>

theorem C4_attempt_budget:
  assumes "RAG_AVAILABLE cfg" and "quiz_context cfg s u = Inr ctx" and "200 \<le> length ctx"
  shows "\<exists>e st. quiz_loop cfg ctx (count_get DIFFICULTY_QUESTION_COUNT d 8)
              (count_get DIFFICULTY_QUESTION_COUNT d 8 * 4) (quiz_start s u) = Inr st
           \<and> generate_quiz cfg s u d = Inr (e, trace st)
           \<and> mcq_calls (trace st) = attempts st
           \<and> chat_calls (trace st) \<le> attempts st
           \<and> attempts st \<le> count_get DIFFICULTY_QUESTION_COUNT d 8 * 4
           \<and> (length (questions st) < count_get DIFFICULTY_QUESTION_COUNT d 8
                \<longrightarrow> attempts st = count_get DIFFICULTY_QUESTION_COUNT d 8 * 4)"
proof -
  obtain st where st: "quiz_loop cfg ctx (count_get DIFFICULTY_QUESTION_COUNT d 8)
         (count_get DIFFICULTY_QUESTION_COUNT d 8 * 4) (quiz_start s u) = Inr st"
    using quiz_loop_total by blast
  from quiz_loop_inv [OF st] have i: "mcq_calls (trace st) = attempts st"
    "chat_calls (trace st) \<le> attempts st"
    "attempts st \<le> count_get DIFFICULTY_QUESTION_COUNT d 8 * 4"
    "\<not> (length (questions st) < count_get DIFFICULTY_QUESTION_COUNT d 8
        \<and> attempts st < count_get DIFFICULTY_QUESTION_COUNT d 8 * 4)"
    by (simp_all add: quiz_inv_def)
  from i have "length (questions st) < count_get DIFFICULTY_QUESTION_COUNT d 8
                \<longrightarrow> attempts st = count_get DIFFICULTY_QUESTION_COUNT d 8 * 4" by linarith
  with generate_quiz_run [OF assms st] st i show ?thesis by blast
qed

text \<open>C4, an instance: no model credential, difficulty easy, budget 20.\<close>

theorem C4_attempt_budget_witness:
  "RAG_AVAILABLE cfg_no_llm \<and> quiz_context cfg_no_llm 1 1 = Inr study_text \<and> 200 \<le> length study_text
   \<and> (\<exists>e st. quiz_loop cfg_no_llm study_text 5 (5 * 4) (quiz_start 1 1) = Inr st
           \<and> generate_quiz cfg_no_llm 1 1 ''easy'' = Inr (e, trace st)
           \<and> mcq_calls (trace st) = attempts st
           \<and> chat_calls (trace st) \<le> attempts st
           \<and> attempts st \<le> 5 * 4
           \<and> (length (questions st) < 5 \<longrightarrow> attempts st = 5 * 4))"
proof -
  have h: "RAG_AVAILABLE cfg_no_llm" "quiz_context cfg_no_llm 1 1 = Inr study_text" "200 \<le> length study_text"
    by (simp_all add: sample_flags sample_contexts study_text_length)
  from C4_attempt_budget [OF h, of "''easy''"] h show ?thesis
    unfolding easy_count by blast
qed

text \<open>
  C5. In a successful result of \<^verbatim>\<open>generate_quiz\<close> no two questions have the same text
  after stripping and lower-casing. That key is the only test: a question the generator
  returned is kept exactly when its key was not seen before.
\<close>

theorem C5_unique_questions:
  "(generate_quiz cfg s u d = Inr (e, tr) \<and> dict_get e ''success'' = PBool True \<longrightarrow>
      (\<exists>qs. dict_get e ''questions'' = PList (map PDict qs)
         \<and> (\<forall>m \<in> set qs. \<exists>q. map_of m ''question'' = Some (PStr q)
                                \<and> dedup_key m = py_lower (py_strip q))
         \<and> distinct (map dedup_key qs)))
   \<and> (fst (generate_mcq_from_context cfg ctx (asked_questions st) (trace st)) = mcq
        \<and> mcq \<noteq> [] \<longrightarrow>
      (\<exists>st'. quiz_step cfg ctx st = Inr st'
         \<and> questions st' = (if dedup_key mcq \<in> asked_questions st then questions st
                            else questions st @ [mcq])))"
proof (intro conjI impI)
  assume a: "generate_quiz cfg s u d = Inr (e, tr) \<and> dict_get e ''success'' = PBool True"
  show "\<exists>qs. dict_get e ''questions'' = PList (map PDict qs)
         \<and> (\<forall>m \<in> set qs. \<exists>q. map_of m ''question'' = Some (PStr q)
                                \<and> dedup_key m = py_lower (py_strip q))
         \<and> distinct (map dedup_key qs)"
  proof (cases rule: generate_quiz_cases [of cfg s u d])
    case no_rag
    with a show ?thesis by (auto simp: empty_quiz_def dict_get_def)
  next
    case (raised x)
    with a show ?thesis by simp
  next
    case (short c)
    with a show ?thesis by (auto simp: empty_quiz_def dict_get_def)
  next
    case (run c st)
    from quiz_loop_inv(1) [OF run(4)] have ok: "list_all mcq_shape_ok (questions st)"
      and di: "distinct (map dedup_key (questions st))"
      by (simp_all add: quiz_inv_def)
    have key: "\<exists>q. map_of m ''question'' = Some (PStr q)
                    \<and> dedup_key m = py_lower (py_strip q)" if "m \<in> set (questions st)" for m
    proof -
      from ok that have "mcq_shape_ok m" by (simp add: list_all_iff)
      then obtain q where "map_of m ''question'' = Some (PStr q)" using mcq_shape_okD by blast
      then show ?thesis by (simp add: dedup_key_def question_text_def)
    qed
    from run(5) a have "e = [(''success'', PBool True), (''difficulty'', PStr d),
                    (''questions'', PList (map PDict (questions st)))]"
      by (auto simp: empty_quiz_def dict_get_def split: if_splits)
    then have "dict_get e ''questions'' = PList (map PDict (questions st))"
      by (simp add: dict_get_def)
    with key di show ?thesis by blast
  qed
next
  assume b: "fst (generate_mcq_from_context cfg ctx (asked_questions st) (trace st)) = mcq
        \<and> mcq \<noteq> []"
  obtain st' where s: "quiz_step cfg ctx st = Inr st'" using quiz_step_total by blast
  from b have w: "fst (generate_mcq_from_context cfg ctx (asked_questions st) (trace st)) = mcq"
    and ne: "mcq \<noteq> []" by simp_all
  from quiz_step_questions(2,3) [OF w s] ne
  have "questions st' = (if dedup_key mcq \<in> asked_questions st then questions st
                            else questions st @ [mcq])" by simp
  with s show "\<exists>st'. quiz_step cfg ctx st = Inr st'
         \<and> questions st' = (if dedup_key mcq \<in> asked_questions st then questions st
                            else questions st @ [mcq])" by blast
qed

text \<open>C5, an instance: the model repeats one question and it is kept once.\<close>

theorem C5_unique_questions_witness:
  "\<exists>tr. generate_quiz cfg_ok 1 1 ''easy'' =
          Inr ([(''success'', PBool True), (''difficulty'', PStr ''easy''),
                (''questions'', PList [PDict value_mcq])], tr)
     \<and> dict_get [(''success'', PBool True), (''difficulty'', PStr ''easy''),
                (''questions'', PList [PDict value_mcq])] ''success'' = PBool True
     \<and> (\<exists>qs. dict_get [(''success'', PBool True), (''difficulty'', PStr ''easy''),
                (''questions'', PList [PDict value_mcq])] ''questions'' = PList (map PDict qs)
         \<and> (\<forall>m \<in> set qs. \<exists>q. map_of m ''question'' = Some (PStr q)
                                \<and> dedup_key m = py_lower (py_strip q))
         \<and> distinct (map dedup_key qs))"
proof -
  from quiz_cfg_ok [of 1 1 "''easy''"] obtain tr where r:
    "generate_quiz cfg_ok 1 1 ''easy'' =
       Inr ([(''success'', PBool True), (''difficulty'', PStr ''easy''),
             (''questions'', PList [PDict value_mcq])], tr)" by blast
  have g: "dict_get [(''success'', PBool True), (''difficulty'', PStr ''easy''),
                (''questions'', PList [PDict value_mcq])] ''success'' = PBool True"
    by (simp add: dict_get_def)
  from C5_unique_questions [of cfg_ok 1 1 "''easy''" _ tr] r g show ?thesis by blast
qed

text \<open>
  C6. With the retrieval service there and a context shorter than 200 characters,
  \<^verbatim>\<open>generate_quiz\<close> returns the failure envelope with the message
  \<^verbatim>\<open>Insufficient content\<close> and \<^verbatim>\<open>generate_flashcards\<close> returns its failure envelope. In
  both the retrieval call is the only call made: no generator call, no request to the
  model.
\<close>

theorem C6_insufficient_content:
  assumes "RAG_AVAILABLE cfg"
  shows "(quiz_context cfg s u = Inr ctx \<and> length ctx < 200 \<longrightarrow>
           generate_quiz cfg s u d =
             Inr ([(''success'', PBool False), (''message'', PStr ''Insufficient content''),
                   (''questions'', PList [])], [Retrieve s u 40])
           \<and> chat_calls [Retrieve s u 40] = 0 \<and> mcq_calls [Retrieve s u 40] = 0)
       \<and> (flashcards_context cfg s u = Inr ctx' \<and> length ctx' < 200 \<longrightarrow>
           generate_flashcards cfg s u d =
             Inr ([(''success'', PBool False), (''flashcards'', PList [])], [Retrieve s u 30])
           \<and> chat_calls [Retrieve s u 30] = 0 \<and> flashcards_calls [Retrieve s u 30] = 0)"
  using assms generate_quiz_short [of cfg s u ctx d] generate_flashcards_short [of cfg s u ctx' d]
  by (simp add: empty_quiz_def chat_calls_def mcq_calls_def flashcards_calls_def)

text \<open>C6, an instance: a context of 50 characters.\<close>

theorem C6_insufficient_content_witness:
  "RAG_AVAILABLE cfg_short \<and> quiz_context cfg_short 1 1 = Inr short_text \<and> length short_text = 50
   \<and> flashcards_context cfg_short 1 1 = Inr short_text \<and> length short_text = 50
   \<and> generate_quiz cfg_short 1 1 ''medium'' =
        Inr ([(''success'', PBool False), (''message'', PStr ''Insufficient content''),
              (''questions'', PList [])], [Retrieve 1 1 40])
   \<and> generate_flashcards cfg_short 1 1 ''medium'' =
        Inr ([(''success'', PBool False), (''flashcards'', PList [])], [Retrieve 1 1 30])"
  using C6_insufficient_content [of cfg_short 1 1 short_text "''medium''" short_text]
  by (simp add: sample_flags sample_contexts short_text_length)

text \<open>
  C7. With the retrieval service there and a context of at least 200 characters, if the
  generator gives nothing at every call (in particular when the model credential is
  absent), \<^verbatim>\<open>generate_quiz\<close> returns the failure envelope with the message
  \<^verbatim>\<open>MCQ generation failed\<close> after exactly four times the target count attempts.
\<close>

theorem C7_no_output:
  assumes "RAG_AVAILABLE cfg" and "quiz_context cfg s u = Inr ctx" and "200 \<le> length ctx"
    and "\<not> GROQ_AVAILABLE cfg \<or> client cfg = None
         \<or> (\<forall>asked tr. fst (generate_mcq_from_context cfg ctx asked tr) = [])"
  shows "\<exists>tr. generate_quiz cfg s u d =
           Inr ([(''success'', PBool False), (''message'', PStr ''MCQ generation failed''),
                 (''questions'', PList [])], tr)
         \<and> mcq_calls tr = count_get DIFFICULTY_QUESTION_COUNT d 8 * 4"
proof -
  from assms(4) have none:
    "\<forall>asked tr. fst (generate_mcq_from_context cfg ctx asked tr) = []"
    using mcq_no_llm [of cfg] by auto
  obtain st where st: "quiz_loop cfg ctx (count_get DIFFICULTY_QUESTION_COUNT d 8)
         (count_get DIFFICULTY_QUESTION_COUNT d 8 * 4) (quiz_start s u) = Inr st"
    using quiz_loop_total by blast
  from quiz_loop_no_output [OF none st count_get_pos]
  have q: "questions st = []" "attempts st = count_get DIFFICULTY_QUESTION_COUNT d 8 * 4"
    by simp_all
  from quiz_loop_inv(1) [OF st] have "mcq_calls (trace st) = attempts st"
    by (simp add: quiz_inv_def)
  with q generate_quiz_run [OF assms(1,2,3) st] show ?thesis by (simp add: empty_quiz_def)
qed

text \<open>C7, an instance: no model credential, difficulty easy, 20 attempts.\<close>

theorem C7_no_output_witness:
  "RAG_AVAILABLE cfg_no_llm \<and> quiz_context cfg_no_llm 1 1 = Inr study_text \<and> 200 \<le> length study_text
   \<and> \<not> GROQ_AVAILABLE cfg_no_llm
   \<and> (\<exists>tr. generate_quiz cfg_no_llm 1 1 ''easy'' =
           Inr ([(''success'', PBool False), (''message'', PStr ''MCQ generation failed''),
                 (''questions'', PList [])], tr)
         \<and> mcq_calls tr = 5 * 4)"
proof -
  have h: "RAG_AVAILABLE cfg_no_llm" "quiz_context cfg_no_llm 1 1 = Inr study_text" "200 \<le> length study_text"
    "\<not> GROQ_AVAILABLE cfg_no_llm"
    by (simp_all add: sample_flags sample_contexts study_text_length)
  from C7_no_output [of cfg_no_llm 1 1 study_text "''easy''"] h show ?thesis
    unfolding easy_count by blast
qed

text \<open>
  C8. When the loop ends with at least one question, \<^verbatim>\<open>generate_quiz\<close> returns
  \<^verbatim>\<open>success\<close> true with exactly the questions collected, whose number lies between 1 and
  the target count.
\<close>

theorem C8_partial_success:
  assumes "RAG_AVAILABLE cfg" and "quiz_context cfg s u = Inr ctx" and "200 \<le> length ctx"
    and "quiz_loop cfg ctx (count_get DIFFICULTY_QUESTION_COUNT d 8)
           (count_get DIFFICULTY_QUESTION_COUNT d 8 * 4) (quiz_start s u) = Inr st"
    and "questions st \<noteq> []"
  shows "generate_quiz cfg s u d =
           Inr ([(''success'', PBool True), (''difficulty'', PStr d),
                 (''questions'', PList (map PDict (questions st)))], trace st)
         \<and> 0 < length (questions st)
         \<and> length (questions st) \<le> count_get DIFFICULTY_QUESTION_COUNT d 8"
proof -
  from quiz_loop_inv(1) [OF assms(4)]
  have "length (questions st) \<le> count_get DIFFICULTY_QUESTION_COUNT d 8"
    by (simp add: quiz_inv_def)
  with generate_quiz_run [OF assms(1,2,3,4)] assms(5) show ?thesis by simp
qed

text \<open>C8, an instance: one question collected where five were asked for.\<close>

theorem C8_partial_success_witness:
  "RAG_AVAILABLE cfg_ok \<and> quiz_context cfg_ok 1 1 = Inr study_text \<and> 200 \<le> length study_text
   \<and> (\<exists>st. quiz_loop cfg_ok study_text 5 (5 * 4) (quiz_start 1 1) = Inr st
        \<and> questions st = [value_mcq]
        \<and> generate_quiz cfg_ok 1 1 ''easy'' =
           Inr ([(''success'', PBool True), (''difficulty'', PStr ''easy''),
                 (''questions'', PList [PDict value_mcq])], trace st)
        \<and> length (questions st) \<le> 5)"
proof -
  have h: "RAG_AVAILABLE cfg_ok" "quiz_context cfg_ok 1 1 = Inr study_text" "200 \<le> length study_text"
    by (simp_all add: sample_flags sample_contexts study_text_length)
  obtain st where st: "quiz_loop cfg_ok study_text
      (count_get DIFFICULTY_QUESTION_COUNT ''easy'' 8)
      (count_get DIFFICULTY_QUESTION_COUNT ''easy'' 8 * 4) (quiz_start 1 1) = Inr st"
    using quiz_loop_total by blast
  have q: "questions st = [value_mcq]"
    using quiz_loop_constant_reply [OF _ _ st] mcq_cfg_ok value_ne count_get_pos by simp
  then have ne: "questions st \<noteq> []" by simp
  from C8_partial_success [OF h st ne] q st h show ?thesis
    unfolding easy_count by auto
qed



text \<open>
  C10. When the retrieval service was not imported, \<^verbatim>\<open>generate_quiz\<close> returns the
  failure envelope with the message \<^verbatim>\<open>Document service not available\<close> and
  \<^verbatim>\<open>generate_flashcards\<close> returns \<^verbatim>\<open>{"success": False, "flashcards": []}\<close>; neither
  makes any call.
\<close>

theorem C10_no_retrieval_service:
  assumes "\<not> RAG_AVAILABLE cfg"
  shows "generate_quiz cfg s u d =
           Inr ([(''success'', PBool False), (''message'', PStr ''Document service not available''),
                 (''questions'', PList [])], [])
       \<and> generate_flashcards cfg s u d =
           Inr ([(''success'', PBool False), (''flashcards'', PList [])], [])"
  using assms by (simp add: generate_quiz_no_rag generate_flashcards_no_rag empty_quiz_def)

text \<open>C10, an instance.\<close>

theorem C10_no_retrieval_service_witness:
  "\<not> RAG_AVAILABLE cfg_no_rag
   \<and> generate_quiz cfg_no_rag 7 3 ''hard'' =
           Inr ([(''success'', PBool False), (''message'', PStr ''Document service not available''),
                 (''questions'', PList [])], [])
   \<and> generate_flashcards cfg_no_rag 7 3 ''hard'' =
           Inr ([(''success'', PBool False), (''flashcards'', PList [])], [])"
  using C10_no_retrieval_service [of cfg_no_rag 7 3 "''hard''"]
  by (simp add: sample_flags)

end
